theory Spec2Isabelle
  imports Complex_Main
begin

section \<open>Sparse-coding inference solvers (sparsecoding/inference.py)\<close>

text \<open>
  A shallow embedding of the solver classes of \<^verbatim>\<open>sparsecoding/inference.py\<close>:
  \<^verbatim>\<open>InferenceMethod\<close>, \<^verbatim>\<open>LCA\<close>, \<^verbatim>\<open>Vanilla\<close>, \<^verbatim>\<open>ISTA\<close>, \<^verbatim>\<open>LSM\<close>,
  \<^verbatim>\<open>PyTorchOptimizer\<close>, \<^verbatim>\<open>IHT\<close>, \<^verbatim>\<open>MP\<close> and \<^verbatim>\<open>OMP\<close>.

  Modelling decisions, valid for the whole development:
  \<^item> A tensor entry is a value of \<open>fval\<close>: a real number, plus or minus infinity, or
    NaN. The special values follow IEEE 754 as torch computes them; rounding, overflow
    of finite values and the sign of zero are not modelled (finite arithmetic is exact).
  \<^item> A tensor is its shape, its entries in row-major order and its device.
  \<^item> Operations of the numeric backend whose algorithm is not part of this
    repository (symmetric eigenvalues, pseudo-inverse, reverse-mode differentiation,
    optimizer updates) are parameters of the functions that call them.
  \<^item> torch raises when operand shapes or devices disagree (and broadcasts a few
    disagreeing shapes); the model raises \<open>RuntimeError\<close> at the first operation that
    combines the operands whenever their dimensions or devices disagree, and does not
    model broadcasting between tensors.
  \<^item> A method is a function from the instance (and the caller's objects it may
    update in place) to its result and the instance and objects afterwards.
\<close>

subsection \<open>Tensor entries\<close>

datatype fval = Fin real | PInf | NInf | NaN

fun fneg :: "fval \<Rightarrow> fval" where
  "fneg (Fin a) = Fin (- a)"
| "fneg PInf = NInf"
| "fneg NInf = PInf"
| "fneg NaN = NaN"

fun fabs :: "fval \<Rightarrow> fval" where
  "fabs (Fin a) = Fin \<bar>a\<bar>"
| "fabs PInf = PInf"
| "fabs NInf = PInf"
| "fabs NaN = NaN"

text \<open>\<^verbatim>\<open>torch.sign\<close> computes \<^verbatim>\<open>(0 < a) - (a < 0)\<close>, which is 0 at NaN.\<close>

fun fsign :: "fval \<Rightarrow> fval" where
  "fsign (Fin a) = Fin (sgn a)"
| "fsign PInf = Fin 1"
| "fsign NInf = Fin (- 1)"
| "fsign NaN = Fin 0"

fun fadd :: "fval \<Rightarrow> fval \<Rightarrow> fval" where
  "fadd NaN y = NaN"
| "fadd x NaN = NaN"
| "fadd (Fin a) (Fin b) = Fin (a + b)"
| "fadd PInf NInf = NaN"
| "fadd NInf PInf = NaN"
| "fadd PInf y = PInf"
| "fadd x PInf = PInf"
| "fadd NInf y = NInf"
| "fadd x NInf = NInf"

definition fsub :: "fval \<Rightarrow> fval \<Rightarrow> fval" where
  "fsub x y = fadd x (fneg y)"

fun fmul :: "fval \<Rightarrow> fval \<Rightarrow> fval" where
  "fmul NaN y = NaN"
| "fmul x NaN = NaN"
| "fmul (Fin a) (Fin b) = Fin (a * b)"
| "fmul (Fin a) PInf = (if a = 0 then NaN else if 0 < a then PInf else NInf)"
| "fmul (Fin a) NInf = (if a = 0 then NaN else if 0 < a then NInf else PInf)"
| "fmul PInf (Fin b) = (if b = 0 then NaN else if 0 < b then PInf else NInf)"
| "fmul NInf (Fin b) = (if b = 0 then NaN else if 0 < b then NInf else PInf)"
| "fmul PInf PInf = PInf"
| "fmul PInf NInf = NInf"
| "fmul NInf PInf = NInf"
| "fmul NInf NInf = PInf"

fun fdiv :: "fval \<Rightarrow> fval \<Rightarrow> fval" where
  "fdiv NaN y = NaN"
| "fdiv x NaN = NaN"
| "fdiv (Fin a) (Fin b) =
     (if b = 0 then (if a = 0 then NaN else if 0 < a then PInf else NInf) else Fin (a / b))"
| "fdiv (Fin a) PInf = Fin 0"
| "fdiv (Fin a) NInf = Fin 0"
| "fdiv PInf (Fin b) = (if 0 \<le> b then PInf else NInf)"
| "fdiv NInf (Fin b) = (if 0 \<le> b then NInf else PInf)"
| "fdiv PInf PInf = NaN"
| "fdiv PInf NInf = NaN"
| "fdiv NInf PInf = NaN"
| "fdiv NInf NInf = NaN"

fun fsqrt :: "fval \<Rightarrow> fval" where
  "fsqrt (Fin a) = (if a < 0 then NaN else Fin (sqrt a))"
| "fsqrt PInf = PInf"
| "fsqrt NInf = NaN"
| "fsqrt NaN = NaN"

text \<open>Comparisons: every comparison with NaN is false.\<close>

fun flt :: "fval \<Rightarrow> fval \<Rightarrow> bool" where
  "flt NaN y = False"
| "flt x NaN = False"
| "flt (Fin a) (Fin b) = (a < b)"
| "flt x NInf = False"
| "flt PInf y = False"
| "flt NInf y = True"
| "flt x PInf = True"

fun fle :: "fval \<Rightarrow> fval \<Rightarrow> bool" where
  "fle NaN y = False"
| "fle x NaN = False"
| "fle (Fin a) (Fin b) = (a \<le> b)"
| "fle NInf y = True"
| "fle x PInf = True"
| "fle x NInf = False"
| "fle PInf y = False"

definition isnan :: "fval \<Rightarrow> bool" where
  "isnan x = (x = NaN)"

definition isfinite :: "fval \<Rightarrow> bool" where
  "isfinite x = (case x of Fin a \<Rightarrow> True | _ \<Rightarrow> False)"

text \<open>\<^verbatim>\<open>x.clamp(min=lo)\<close>: the larger of \<open>x\<close> and \<open>lo\<close>; a NaN entry stays NaN.\<close>

definition clamp_min :: "fval \<Rightarrow> fval \<Rightarrow> fval" where
  "clamp_min lo x = (if isnan x then x else if flt x lo then lo else x)"

definition fsum :: "fval list \<Rightarrow> fval" where
  "fsum xs = foldl fadd (Fin 0) xs"

subsection \<open>Tensors\<close>

datatype device = CPU | CUDA nat

record tensor =
  shape :: "nat list"
  elems :: "fval list"
  device :: device

definition wf_tensor :: "tensor \<Rightarrow> bool" where
  "wf_tensor t = (length (elems t) = prod_list (shape t))"

definition full :: "nat list \<Rightarrow> fval \<Rightarrow> device \<Rightarrow> tensor" where
  "full shp v dev = \<lparr>shape = shp, elems = replicate (prod_list shp) v, device = dev\<rparr>"

text \<open>\<^verbatim>\<open>torch.zeros(shp).to(dev)\<close>\<close>

definition zeros :: "nat list \<Rightarrow> device \<Rightarrow> tensor" where
  "zeros shp dev = full shp (Fin 0) dev"

definition ones :: "nat list \<Rightarrow> device \<Rightarrow> tensor" where
  "ones shp dev = full shp (Fin 1) dev"

text \<open>\<^verbatim>\<open>t.to(dev)\<close>: the tensor itself when it is on \<open>dev\<close>, else a copy on \<open>dev\<close>.\<close>

definition to_device :: "tensor \<Rightarrow> device \<Rightarrow> tensor" where
  "to_device t dev = t\<lparr>device := dev\<rparr>"

text \<open>Elementwise operations; the binary ones are used on operands of one shape.\<close>

definition tmap :: "(fval \<Rightarrow> fval) \<Rightarrow> tensor \<Rightarrow> tensor" where
  "tmap f t = t\<lparr>elems := map f (elems t)\<rparr>"

definition tzip :: "(fval \<Rightarrow> fval \<Rightarrow> fval) \<Rightarrow> tensor \<Rightarrow> tensor \<Rightarrow> tensor" where
  "tzip f a b = a\<lparr>elems := map2 f (elems a) (elems b)\<rparr>"

definition t_abs :: "tensor \<Rightarrow> tensor" where
  "t_abs = tmap fabs"

definition t_sign :: "tensor \<Rightarrow> tensor" where
  "t_sign = tmap fsign"

definition t_add :: "tensor \<Rightarrow> tensor \<Rightarrow> tensor" where
  "t_add = tzip fadd"

definition t_sub :: "tensor \<Rightarrow> tensor \<Rightarrow> tensor" where
  "t_sub = tzip fsub"

definition t_mul :: "tensor \<Rightarrow> tensor \<Rightarrow> tensor" where
  "t_mul = tzip fmul"

text \<open>A tensor and a scalar (a Python float or a 0-dimensional tensor).\<close>

definition t_sub_scalar :: "tensor \<Rightarrow> fval \<Rightarrow> tensor" where
  "t_sub_scalar t c = tmap (\<lambda>x. fsub x c) t"

definition t_div_scalar :: "tensor \<Rightarrow> fval \<Rightarrow> tensor" where
  "t_div_scalar t c = tmap (\<lambda>x. fdiv x c) t"

definition smul :: "fval \<Rightarrow> tensor \<Rightarrow> tensor" where
  "smul c t = tmap (\<lambda>x. fmul c x) t"

definition t_clamp_min :: "tensor \<Rightarrow> fval \<Rightarrow> tensor" where
  "t_clamp_min t lo = tmap (clamp_min lo) t"

subsection \<open>Errors\<close>

datatype error =
  ValueError string
  | RuntimeError
  | IndexError
  | AttributeError string
  | ZeroDivisionError

subsection \<open>InferenceMethod\<close>

typedecl pyobj

record InferenceMethod =
  solver :: "pyobj option"

definition InferenceMethod_init :: "pyobj option \<Rightarrow> InferenceMethod" where
  "InferenceMethod_init slv = \<lparr>solver = slv\<rparr>"

text \<open>
  \<^verbatim>\<open>if torch.isnan(data).any(): raise ValueError('InferenceMethod error: nan in %s.' % (name))\<close>
\<close>

definition checknan :: "tensor \<Rightarrow> string \<Rightarrow> error + unit" where
  "checknan data name =
     (if list_ex isnan (elems data)
      then Inl (ValueError (''InferenceMethod error: nan in '' @ name @ ''.''))
      else Inr ())"

subsection \<open>Matrices, trajectories and norms\<close>

text \<open>The size of dimension \<open>i\<close>; the callers check the number of dimensions first.\<close>

definition dim :: "tensor \<Rightarrow> nat \<Rightarrow> nat" where
  "dim t i = (if i < length (shape t) then shape t ! i else 0)"

text \<open>\<^verbatim>\<open>a, b = t.shape\<close> raises ValueError unless \<open>t\<close> has two dimensions.\<close>

definition shape2 :: "tensor \<Rightarrow> error + nat \<times> nat" where
  "shape2 t =
     (case shape t of
        [a, b] \<Rightarrow> Inr (a, b)
      | _ \<Rightarrow> Inl (ValueError ''wrong number of values to unpack''))"

definition row :: "tensor \<Rightarrow> nat \<Rightarrow> fval list" where
  "row t i = take (dim t 1) (drop (i * dim t 1) (elems t))"

definition rows :: "tensor \<Rightarrow> fval list list" where
  "rows t = map (row t) [0..<dim t 0]"

definition col :: "tensor \<Rightarrow> nat \<Rightarrow> fval list" where
  "col t j = map (\<lambda>i. elems t ! (i * dim t 1 + j)) [0..<dim t 0]"

definition cols :: "tensor \<Rightarrow> fval list list" where
  "cols t = map (col t) [0..<dim t 1]"

definition of_rows :: "nat \<Rightarrow> nat \<Rightarrow> device \<Rightarrow> fval list list \<Rightarrow> tensor" where
  "of_rows r c dev rs = \<lparr>shape = [r, c], elems = concat rs, device = dev\<rparr>"

text \<open>\<^verbatim>\<open>t.t()\<close>, \<^verbatim>\<open>t.T\<close>\<close>

definition t_T :: "tensor \<Rightarrow> tensor" where
  "t_T t = of_rows (dim t 1) (dim t 0) (device t) (cols t)"

definition dot :: "fval list \<Rightarrow> fval list \<Rightarrow> fval" where
  "dot xs ys = fsum (map2 fmul xs ys)"

text \<open>\<^verbatim>\<open>torch.mm(a, b)\<close>, \<^verbatim>\<open>a @ b\<close>\<close>

definition mm :: "tensor \<Rightarrow> tensor \<Rightarrow> tensor" where
  "mm a b = of_rows (dim a 0) (dim b 1) (device a)
              (map (\<lambda>r. map (\<lambda>c. dot r c) (cols b)) (rows a))"

definition eye :: "nat \<Rightarrow> device \<Rightarrow> tensor" where
  "eye n dev = of_rows n n dev
                 (map (\<lambda>i. map (\<lambda>j. if i = j then Fin 1 else Fin 0) [0..<n]) [0..<n])"

text \<open>\<^verbatim>\<open>t.unsqueeze(1)\<close>: a dimension of size 1 at position 1.\<close>

definition unsqueeze1 :: "tensor \<Rightarrow> tensor" where
  "unsqueeze1 t = t\<lparr>shape := take 1 (shape t) @ [1] @ drop 1 (shape t)\<rparr>"

text \<open>\<^verbatim>\<open>torch.concat([a, b], dim=1)\<close> of three-dimensional tensors.\<close>

definition concat_dim1 :: "tensor \<Rightarrow> tensor \<Rightarrow> tensor" where
  "concat_dim1 a b =
     (let ka = dim a 1 * dim a 2; kb = dim b 1 * dim b 2
      in \<lparr>shape = [dim a 0, dim a 1 + dim b 1, dim a 2],
          elems = concat (map (\<lambda>i. take ka (drop (i * ka) (elems a)) @
                                     take kb (drop (i * kb) (elems b)))
                              [0..<dim a 0]),
          device = device a\<rparr>)"

text \<open>\<^verbatim>\<open>t.squeeze()\<close>, \<^verbatim>\<open>torch.squeeze(t)\<close>: every dimension of size 1 is removed.\<close>

definition squeeze :: "tensor \<Rightarrow> tensor" where
  "squeeze t = t\<lparr>shape := filter (\<lambda>d. d \<noteq> 1) (shape t)\<rparr>"

text \<open>\<^verbatim>\<open>torch.linalg.norm(t)\<close>: the Frobenius norm; \<^verbatim>\<open>torch.mean(t)\<close>.\<close>

definition t_norm :: "tensor \<Rightarrow> fval" where
  "t_norm t = fsqrt (fsum (map (\<lambda>x. fmul x x) (elems t)))"

definition t_mean :: "tensor \<Rightarrow> fval" where
  "t_mean t = fdiv (fsum (elems t)) (Fin (real (length (elems t))))"

subsection \<open>Python strings and identity\<close>

text \<open>
  \<^verbatim>\<open>x is 'none'\<close> compares object identity. The literal is an interned string, so a
  string object is identical to it exactly when it has the same characters and is
  interned itself (every literal is; a string built at run time is not).
\<close>

datatype pystr = PyStr (chars: string) (interned: bool)

definition py_is :: "pystr \<Rightarrow> string \<Rightarrow> bool" where
  "py_is s lit = (chars s = lit \<and> interned s)"


subsection \<open>LCA\<close>

record LCA = InferenceMethod +
  threshold :: fval
  coeff_lr :: fval
  stop_early :: bool
  epsilon :: fval
  n_iter :: int
  return_all_coefficients :: pystr


definition LCA_threshold_nonlinearity :: "LCA \<Rightarrow> tensor \<Rightarrow> tensor" where
  "LCA_threshold_nonlinearity self u =
     (let a = t_clamp_min (t_sub_scalar (t_abs u) (LCA.threshold self)) (Fin 0);
          a = t_mul (t_sign u) a
      in a)"

text \<open>\<^verbatim>\<open>du = b-u-(G@a.t()).t()\<close>\<close>

definition LCA_grad :: "tensor \<Rightarrow> tensor \<Rightarrow> tensor \<Rightarrow> tensor \<Rightarrow> tensor" where
  "LCA_grad b G u a = t_sub (t_sub b u) (t_T (mm G (t_T a)))"

text \<open>
  The body of \<^verbatim>\<open>for i in range(self.n_iter)\<close>; the first numeric argument counts the
  iterations still to run, and \<^verbatim>\<open>break\<close> returns at once.
\<close>

fun LCA_infer_loop ::
  "LCA \<Rightarrow> bool \<Rightarrow> tensor \<Rightarrow> tensor \<Rightarrow> nat \<Rightarrow> tensor \<Rightarrow> tensor \<Rightarrow> error + tensor \<times> tensor" where
  "LCA_infer_loop self use_checknan b G 0 u coefficients = Inr (u, coefficients)"
| "LCA_infer_loop self use_checknan b G (Suc k) u coefficients =
     (let old_u = u;
          coefficients1 =
            (if \<not> py_is (LCA.return_all_coefficients self) ''none'' then
               (if py_is (LCA.return_all_coefficients self) ''active''
                then concat_dim1 coefficients (unsqueeze1 (LCA_threshold_nonlinearity self u))
                else concat_dim1 coefficients (unsqueeze1 u))
             else coefficients);
          a = LCA_threshold_nonlinearity self u;
          du = LCA_grad b G u a;
          u1 = t_add u (smul (LCA.coeff_lr self) du)
      in if LCA.stop_early self \<and>
            flt (fdiv (t_norm (t_sub old_u u1)) (t_norm old_u)) (LCA.epsilon self)
         then Inr (u1, coefficients1)
         else if use_checknan then
           (case checknan u1 ''coefficients'' of
              Inl e \<Rightarrow> Inl e
            | Inr _ \<Rightarrow> LCA_infer_loop self use_checknan b G k u1 coefficients1)
         else LCA_infer_loop self use_checknan b G k u1 coefficients1)"

text \<open>
  \<^verbatim>\<open>LCA.infer(self, data, dictionary, coeff_0=None, use_checknan=False)\<close>. The result
  is the returned tensor or the exception, the instance after the call and the caller's
  \<open>coeff_0\<close> object after the call.
\<close>

definition LCA_infer ::
  "LCA \<Rightarrow> tensor \<Rightarrow> tensor \<Rightarrow> tensor option \<Rightarrow> bool \<Rightarrow> (error + tensor) \<times> LCA \<times> tensor option" where
  "LCA_infer self data dictionary coeff_0 use_checknan =
     (case shape2 data of
        Inl e \<Rightarrow> (Inl e, self, coeff_0)
      | Inr (batch_size, n_features0) \<Rightarrow>
     (case shape2 dictionary of
        Inl e \<Rightarrow> (Inl e, self, coeff_0)
      | Inr (n_features, n_basis) \<Rightarrow>
        (let dev = device dictionary;
             u = (case coeff_0 of
                    Some c \<Rightarrow> to_device c dev
                  | None \<Rightarrow> zeros [batch_size, n_basis] dev);
             coefficients = zeros [batch_size, 0, n_basis] dev
         in if n_features0 \<noteq> n_features \<or> device data \<noteq> dev \<or> shape u \<noteq> [batch_size, n_basis]
            then (Inl RuntimeError, self, coeff_0)
            else
              (let b = t_T (mm (t_T dictionary) (t_T data));
                   G = t_sub (mm (t_T dictionary) dictionary) (eye n_basis dev)
               in case LCA_infer_loop self use_checknan b G (nat (LCA.n_iter self)) u coefficients of
                    Inl e \<Rightarrow> (Inl e, self, coeff_0)
                  | Inr (u1, coefficients1) \<Rightarrow>
                      (let coefficients2 =
                             (if py_is (LCA.return_all_coefficients self) ''membrane''
                              then concat_dim1 coefficients1 (unsqueeze1 u1)
                              else (let final_coefficients = LCA_threshold_nonlinearity self u1
                                    in concat_dim1 coefficients1 (unsqueeze1 final_coefficients)))
                       in (Inr (squeeze coefficients2), self, coeff_0))))))"

subsection \<open>The global random number generator\<close>

text \<open>
  The state of torch's default generator is the sequence of uniform samples it has yet
  to produce. \<^verbatim>\<open>torch.rand(shp)\<close> takes as many as the tensor has entries.
\<close>

type_synonym rng = "nat \<Rightarrow> real"

definition rand :: "rng \<Rightarrow> nat list \<Rightarrow> tensor \<times> rng" where
  "rand g shp =
     (\<lparr>shape = shp, elems = map (\<lambda>i. Fin (g i)) [0..<prod_list shp], device = CPU\<rparr>,
      (\<lambda>i. g (i + prod_list shp)))"

subsection \<open>Vanilla\<close>

record Vanilla = InferenceMethod +
  coeff_lr :: fval
  sparsity_penalty :: fval
  stop_early :: bool
  epsilon :: fval
  n_iter :: int
  return_all_coefficients :: bool

definition Vanilla_init ::
  "int \<Rightarrow> fval \<Rightarrow> fval \<Rightarrow> bool \<Rightarrow> fval \<Rightarrow> pyobj option \<Rightarrow> bool \<Rightarrow> Vanilla" where
  "Vanilla_init n_iter' coeff_lr' sparsity_penalty' stop_early' epsilon' solver'
      return_all_coefficients' =
     \<lparr>solver = solver', Vanilla.coeff_lr = coeff_lr',
      Vanilla.sparsity_penalty = sparsity_penalty', Vanilla.stop_early = stop_early',
      Vanilla.epsilon = epsilon', Vanilla.n_iter = n_iter',
      Vanilla.return_all_coefficients = return_all_coefficients'\<rparr>"

text \<open>\<^verbatim>\<open>da = (dictionary.t()@residual.t()).t() - self.sparsity_penalty*torch.sign(a)\<close>\<close>

definition Vanilla_grad :: "Vanilla \<Rightarrow> tensor \<Rightarrow> tensor \<Rightarrow> tensor \<Rightarrow> tensor" where
  "Vanilla_grad self residual dictionary a =
     t_sub (t_T (mm (t_T dictionary) (t_T residual)))
           (smul (Vanilla.sparsity_penalty self) (t_sign a))"

fun Vanilla_infer_loop ::
  "Vanilla \<Rightarrow> bool \<Rightarrow> tensor \<Rightarrow> tensor \<Rightarrow> nat \<Rightarrow> tensor \<Rightarrow> tensor \<Rightarrow> tensor \<Rightarrow>
   error + tensor \<times> tensor" where
  "Vanilla_infer_loop self use_checknan data dictionary 0 a residual coefficients =
     Inr (a, coefficients)"
| "Vanilla_infer_loop self use_checknan data dictionary (Suc k) a residual coefficients =
     (let coefficients1 =
            (if Vanilla.return_all_coefficients self
             then concat_dim1 coefficients (unsqueeze1 a)
             else coefficients);
          old_a = a;
          da = Vanilla_grad self residual dictionary a;
          a1 = t_add a (smul (Vanilla.coeff_lr self) da)
      in if Vanilla.stop_early self \<and>
            flt (fdiv (t_norm (t_sub old_a a1)) (t_norm old_a)) (Vanilla.epsilon self)
         then Inr (a1, coefficients1)
         else
           (let residual1 = t_sub data (t_T (mm dictionary (t_T a1)))
            in if use_checknan then
                 (case checknan a1 ''coefficients'' of
                    Inl e \<Rightarrow> Inl e
                  | Inr _ \<Rightarrow>
                      Vanilla_infer_loop self use_checknan data dictionary k a1 residual1
                        coefficients1)
               else Vanilla_infer_loop self use_checknan data dictionary k a1 residual1
                      coefficients1))"

text \<open>
  \<^verbatim>\<open>Vanilla.infer(self, data, dictionary, coeff_0=None, use_checknan=False)\<close>, with the
  state of the global generator before and after the call.
\<close>

definition Vanilla_infer ::
  "Vanilla \<Rightarrow> tensor \<Rightarrow> tensor \<Rightarrow> tensor option \<Rightarrow> bool \<Rightarrow> rng \<Rightarrow>
   (error + tensor) \<times> Vanilla \<times> tensor option \<times> rng" where
  "Vanilla_infer self data dictionary coeff_0 use_checknan g =
     (case shape2 data of
        Inl e \<Rightarrow> (Inl e, self, coeff_0, g)
      | Inr (batch_size, n_features0) \<Rightarrow>
     (case shape2 dictionary of
        Inl e \<Rightarrow> (Inl e, self, coeff_0, g)
      | Inr (n_features, n_basis) \<Rightarrow>
        (let dev = device dictionary;
             (a, g1) = (case coeff_0 of
                          Some c \<Rightarrow> (to_device c dev, g)
                        | None \<Rightarrow>
                            (let (r, g') = rand g [batch_size, n_basis]
                             in (t_sub_scalar (to_device r dev) (Fin (1 / 2)), g')));
             coefficients = zeros [batch_size, 0, n_basis] dev
         in if n_features0 \<noteq> n_features \<or> device data \<noteq> dev \<or> shape a \<noteq> [batch_size, n_basis]
            then (Inl RuntimeError, self, coeff_0, g1)
            else
              (let residual = t_sub data (t_T (mm dictionary (t_T a)))
               in case Vanilla_infer_loop self use_checknan data dictionary
                         (nat (Vanilla.n_iter self)) a residual coefficients of
                    Inl e \<Rightarrow> (Inl e, self, coeff_0, g1)
                  | Inr (a1, coefficients1) \<Rightarrow>
                      (let coefficients2 = concat_dim1 coefficients1 (unsqueeze1 a1)
                       in (Inr (squeeze coefficients2), self, coeff_0, g1))))))"

subsection \<open>Optimizers and reverse-mode differentiation\<close>

text \<open>
  An optimizer object holds its own state: \<^verbatim>\<open>optimizer.step()\<close> maps the parameter
  tensor and its gradient to the updated parameter (written in place) and the optimizer
  afterwards. \<^verbatim>\<open>loss.backward(v)\<close> is a parameter \<open>backward\<close> of the solvers that call
  it: given the loss as a function of the coefficients, the coefficients and \<open>v\<close>, it
  yields the gradient that \<^verbatim>\<open>step\<close> reads (\<^verbatim>\<open>zero_grad\<close> has cleared the previous one).
\<close>

codatatype optimizer = Optimizer (step: "tensor \<Rightarrow> tensor \<Rightarrow> tensor \<times> optimizer")

type_synonym backward = "(tensor \<Rightarrow> error + tensor) \<Rightarrow> tensor \<Rightarrow> tensor \<Rightarrow> tensor"

subsection \<open>LSM\<close>

record LSM = InferenceMethod +
  n_iter :: int
  n_iter_LSM :: int
  beta :: fval
  alpha :: fval
  sigma :: fval
  sparse_threshold :: fval
  return_all_coefficients :: bool

definition LSM_init ::
  "int \<Rightarrow> int \<Rightarrow> fval \<Rightarrow> fval \<Rightarrow> fval \<Rightarrow> fval \<Rightarrow> pyobj option \<Rightarrow> bool \<Rightarrow> LSM" where
  "LSM_init n_iter' n_iter_LSM' beta' alpha' sigma' sparse_threshold' solver'
      return_all_coefficients' =
     \<lparr>solver = solver', LSM.n_iter = n_iter', LSM.n_iter_LSM = n_iter_LSM', LSM.beta = beta',
      LSM.alpha = alpha', LSM.sigma = sigma', LSM.sparse_threshold = sparse_threshold',
      LSM.return_all_coefficients = return_all_coefficients'\<rparr>"

text \<open>Division of Python floats raises on a zero divisor.\<close>

definition py_float_div :: "fval \<Rightarrow> fval \<Rightarrow> error + fval" where
  "py_float_div a b = (if b = Fin 0 then Inl ZeroDivisionError else Inr (fdiv a b))"

text \<open>Reductions over \<^verbatim>\<open>dim=1\<close> with \<^verbatim>\<open>keepdim=True\<close>.\<close>

definition row_norms :: "tensor \<Rightarrow> tensor" where
  "row_norms t = of_rows (dim t 0) 1 (device t)
                   (map (\<lambda>r. [fsqrt (fsum (map (\<lambda>x. fmul x x) r))]) (rows t))"

definition row_sums :: "tensor \<Rightarrow> tensor" where
  "row_sums t = of_rows (dim t 0) 1 (device t) (map (\<lambda>r. [fsum r]) (rows t))"

definition lsm_Loss ::
  "LSM \<Rightarrow> tensor \<Rightarrow> tensor \<Rightarrow> tensor \<Rightarrow> tensor \<Rightarrow> fval \<Rightarrow> error + tensor" where
  "lsm_Loss self data dictionary coefficients lambdas sigma' =
     (case py_float_div (Fin 1) (fmul (Fin 2) (fmul sigma' sigma')) of
        Inl e \<Rightarrow> Inl e
      | Inr factor \<Rightarrow>
          (if length (shape coefficients) \<noteq> 2 \<or> length (shape dictionary) \<noteq> 2 \<or>
              shape data \<noteq> [dim coefficients 0, dim dictionary 0] \<or>
              dim coefficients 1 \<noteq> dim dictionary 1 \<or> shape lambdas \<noteq> shape coefficients \<or>
              device data \<noteq> device dictionary \<or> device coefficients \<noteq> device dictionary
           then Inl RuntimeError
           else
             (let mse_loss =
                    smul factor
                      (tmap (\<lambda>x. fmul x x)
                         (row_norms (t_sub data (t_T (mm dictionary (t_T coefficients))))));
                  sparse_loss = row_sums (t_mul lambdas (t_abs coefficients));
                  loss = t_add mse_loss sparse_loss
              in Inr loss)))"

text \<open>The inner loop \<^verbatim>\<open>for t in range(0, self.n_iter)\<close>.\<close>

fun LSM_infer_inner ::
  "backward \<Rightarrow> LSM \<Rightarrow> tensor \<Rightarrow> tensor \<Rightarrow> tensor \<Rightarrow> nat \<Rightarrow> tensor \<Rightarrow> optimizer \<Rightarrow>
   error + tensor" where
  "LSM_infer_inner bw self data dictionary lambdas 0 coefficients opt = Inr coefficients"
| "LSM_infer_inner bw self data dictionary lambdas (Suc k) coefficients opt =
     (case lsm_Loss self data dictionary coefficients lambdas (LSM.sigma self) of
        Inl e \<Rightarrow> Inl e
      | Inr loss \<Rightarrow>
          (let g = bw (\<lambda>c. lsm_Loss self data dictionary c lambdas (LSM.sigma self))
                      coefficients (ones [dim data 0, 1] (device dictionary));
               (coefficients1, opt1) = step opt coefficients g
           in LSM_infer_inner bw self data dictionary lambdas k coefficients1 opt1))"

text \<open>The outer loop \<^verbatim>\<open>for i in range(0, self.n_iter_LSM)\<close>.\<close>

fun LSM_infer_outer ::
  "(tensor \<Rightarrow> optimizer) \<Rightarrow> backward \<Rightarrow> LSM \<Rightarrow> tensor \<Rightarrow> tensor \<Rightarrow> nat \<Rightarrow> nat \<Rightarrow> nat \<Rightarrow> tensor \<Rightarrow>
   error + tensor" where
  "LSM_infer_outer adam bw self data dictionary batch_size n_basis 0 coefficients =
     Inr coefficients"
| "LSM_infer_outer adam bw self data dictionary batch_size n_basis (Suc k) coefficients =
     (let lambdas = tmap (\<lambda>x. fdiv (fadd (LSM.alpha self) (Fin 1)) (fadd (LSM.beta self) x))
                      (t_abs coefficients);
          coefficients0 = zeros [batch_size, n_basis] (device dictionary);
          opt = adam coefficients0
      in case LSM_infer_inner bw self data dictionary lambdas (nat (LSM.n_iter self))
                coefficients0 opt of
           Inl e \<Rightarrow> Inl e
         | Inr coefficients1 \<Rightarrow>
             LSM_infer_outer adam bw self data dictionary batch_size n_basis k coefficients1)"

text \<open>
  \<^verbatim>\<open>LSM.infer(self, data, dictionary)\<close>; \<open>adam\<close> is \<^verbatim>\<open>torch.optim.Adam\<close> applied to
  the coefficient tensor.
\<close>

definition LSM_infer ::
  "(tensor \<Rightarrow> optimizer) \<Rightarrow> backward \<Rightarrow> LSM \<Rightarrow> tensor \<Rightarrow> tensor \<Rightarrow> (error + tensor) \<times> LSM" where
  "LSM_infer adam bw self data dictionary =
     (case shape2 data of
        Inl e \<Rightarrow> (Inl e, self)
      | Inr (batch_size, n_features0) \<Rightarrow>
     (case shape2 dictionary of
        Inl e \<Rightarrow> (Inl e, self)
      | Inr (n_features, n_basis) \<Rightarrow>
          (let coefficients = zeros [batch_size, n_basis] (device dictionary)
           in case LSM_infer_outer adam bw self data dictionary batch_size n_basis
                     (nat (LSM.n_iter_LSM self)) coefficients of
                Inl e \<Rightarrow> (Inl e, self)
              | Inr coefficients1 \<Rightarrow>
                  (Inr (tmap (\<lambda>x. if flt (fabs x) (LSM.sparse_threshold self) then Fin 0 else x)
                          coefficients1),
                   self))))"

subsection \<open>PyTorchOptimizer\<close>

record PyTorchOptimizer = InferenceMethod +
  optimizer_f :: "tensor \<Rightarrow> optimizer"
  loss_f :: "tensor \<Rightarrow> tensor \<Rightarrow> tensor \<Rightarrow> error + tensor"
  n_iter :: int

definition PyTorchOptimizer_init ::
  "(tensor \<Rightarrow> optimizer) \<Rightarrow> (tensor \<Rightarrow> tensor \<Rightarrow> tensor \<Rightarrow> error + tensor) \<Rightarrow> int \<Rightarrow>
   pyobj option \<Rightarrow> PyTorchOptimizer" where
  "PyTorchOptimizer_init optimizer_f' loss_f' n_iter' solver' =
     \<lparr>solver = solver', PyTorchOptimizer.optimizer_f = optimizer_f',
      PyTorchOptimizer.loss_f = loss_f', PyTorchOptimizer.n_iter = n_iter'\<rparr>"

text \<open>A tensor object of the caller with its \<^verbatim>\<open>requires_grad\<close> flag.\<close>

record tensor_object =
  payload :: tensor
  requires_grad :: bool

text \<open>
  The loop of \<^verbatim>\<open>PyTorchOptimizer.infer\<close>. Every \<^verbatim>\<open>optimizer.step()\<close> writes the
  coefficient tensor in place, so the tensor returned with an exception is the one the
  steps before it have left.
\<close>

fun PyTorchOptimizer_infer_loop ::
  "backward \<Rightarrow> PyTorchOptimizer \<Rightarrow> tensor \<Rightarrow> tensor \<Rightarrow> nat \<Rightarrow> nat \<Rightarrow> tensor \<Rightarrow> optimizer \<Rightarrow>
   error option \<times> tensor" where
  "PyTorchOptimizer_infer_loop bw self data dictionary batch_size 0 coefficients opt =
     (None, coefficients)"
| "PyTorchOptimizer_infer_loop bw self data dictionary batch_size (Suc k) coefficients opt =
     (case PyTorchOptimizer.loss_f self data dictionary coefficients of
        Inl e \<Rightarrow> (Some e, coefficients)
      | Inr loss \<Rightarrow>
          (if shape loss \<noteq> [batch_size] \<or> device loss \<noteq> device dictionary
           then (Some RuntimeError, coefficients)
           else
             (let g = bw (PyTorchOptimizer.loss_f self data dictionary) coefficients
                         (ones [batch_size] (device dictionary));
                  (coefficients1, opt1) = step opt coefficients g
              in PyTorchOptimizer_infer_loop bw self data dictionary batch_size k
                   coefficients1 opt1)))"

text \<open>
  \<^verbatim>\<open>PyTorchOptimizer.infer(self, data, dictionary, coeff_0=None)\<close>. With a warm start,
  \<^verbatim>\<open>coefficients = coeff_0.requires_grad_(True)\<close> is the caller's object itself.
\<close>

definition PyTorchOptimizer_infer ::
  "backward \<Rightarrow> PyTorchOptimizer \<Rightarrow> tensor \<Rightarrow> tensor \<Rightarrow> tensor_object option \<Rightarrow>
   (error + tensor) \<times> PyTorchOptimizer \<times> tensor_object option" where
  "PyTorchOptimizer_infer bw self data dictionary coeff_0 =
     (case shape2 data of
        Inl e \<Rightarrow> (Inl e, self, coeff_0)
      | Inr (batch_size, n_features0) \<Rightarrow>
     (case shape2 dictionary of
        Inl e \<Rightarrow> (Inl e, self, coeff_0)
      | Inr (n_features, n_basis) \<Rightarrow>
          (let coefficients = (case coeff_0 of
                                 Some c \<Rightarrow> payload c
                               | None \<Rightarrow> zeros [batch_size, n_basis] (device dictionary));
               opt = PyTorchOptimizer.optimizer_f self coefficients;
               (err, coefficients1) =
                 PyTorchOptimizer_infer_loop bw self data dictionary batch_size
                   (nat (PyTorchOptimizer.n_iter self)) coefficients opt;
               coeff_0_after = (case coeff_0 of
                                  Some c \<Rightarrow> Some \<lparr>payload = coefficients1, requires_grad = True\<rparr>
                                | None \<Rightarrow> None)
           in case err of
                Some e \<Rightarrow> (Inl e, self, coeff_0_after)
              | None \<Rightarrow> (Inr coefficients1, self, coeff_0_after))))"

subsection \<open>Per-sample helpers of IHT, MP and OMP\<close>

text \<open>\<^verbatim>\<open>np.ceil(self.sparsity*n_basis).astype(int)\<close>; the sparsity is a finite float.\<close>

definition signal_sparsity :: "real \<Rightarrow> nat \<Rightarrow> int" where
  "signal_sparsity sparsity' n_basis = \<lceil>sparsity' * real n_basis\<rceil>"

text \<open>\<^verbatim>\<open>data[i:i+1,:]\<close>\<close>

definition slice_row :: "tensor \<Rightarrow> nat \<Rightarrow> tensor" where
  "slice_row t i = of_rows 1 (dim t 1) (device t) [row t i]"

text \<open>\<^verbatim>\<open>coefficients[i,:] = coeff\<close>\<close>

definition set_row :: "tensor \<Rightarrow> nat \<Rightarrow> fval list \<Rightarrow> tensor" where
  "set_row t i r =
     t\<lparr>elems := take (i * dim t 1) (elems t) @ r @ drop (Suc i * dim t 1) (elems t)\<rparr>"

text \<open>
  The order of \<^verbatim>\<open>torch.sort\<close> and \<^verbatim>\<open>torch.argmax\<close>: NaN is greater than every
  other value.
\<close>

definition sort_gt :: "fval \<Rightarrow> fval \<Rightarrow> bool" where
  "sort_gt x y = (if isnan y then False else if isnan x then True else flt y x)"

text \<open>
  \<^verbatim>\<open>torch.sort(v, dim=1, descending=True)\<close> on a single row: the indices in
  descending order of their entries. torch leaves the order of equal entries open; the
  model keeps them in index order.
\<close>

fun insert_desc :: "fval list \<Rightarrow> nat \<Rightarrow> nat list \<Rightarrow> nat list" where
  "insert_desc v i [] = [i]"
| "insert_desc v i (j # js) =
     (if sort_gt (v ! j) (v ! i) then j # insert_desc v i js else i # j # js)"

definition argsort_desc :: "fval list \<Rightarrow> nat list" where
  "argsort_desc v = foldr (insert_desc v) [0..<length v] []"

text \<open>The Python slice \<^verbatim>\<open>xs[0:K]\<close>: a negative \<open>K\<close> counts from the end.\<close>

definition py_slice_to :: "int \<Rightarrow> 'a list \<Rightarrow> 'a list" where
  "py_slice_to K xs = (if 0 \<le> K then take (nat K) xs else take (length xs - nat (- K)) xs)"

text \<open>
  \<^verbatim>\<open>coeff[0,idx] = vals\<close> on a tensor of one row. An index that occurs twice keeps the
  value written last.
\<close>

definition index_put :: "tensor \<Rightarrow> nat list \<Rightarrow> fval list \<Rightarrow> tensor" where
  "index_put t idx vals = t\<lparr>elems := foldl (\<lambda>e (j, v). e[j := v]) (elems t) (zip idx vals)\<rparr>"

text \<open>\<^verbatim>\<open>torch.argmax(v)\<close>: the first index of a greatest entry; an empty tensor raises.\<close>

fun argmax_from :: "nat \<Rightarrow> fval \<Rightarrow> nat \<Rightarrow> fval list \<Rightarrow> nat" where
  "argmax_from bi bv i [] = bi"
| "argmax_from bi bv i (x # xs) =
     (if sort_gt x bv then argmax_from i x (Suc i) xs else argmax_from bi bv (Suc i) xs)"

definition argmax :: "tensor \<Rightarrow> error + nat" where
  "argmax t = (case elems t of [] \<Rightarrow> Inl RuntimeError | x # xs \<Rightarrow> Inr (argmax_from 0 x 1 xs))"

text \<open>\<^verbatim>\<open>torch.norm(dictionary, p=2, dim=0, keepdim=True)\<close>\<close>

definition col_norms :: "tensor \<Rightarrow> tensor" where
  "col_norms t = of_rows 1 (dim t 1) (device t)
                   [map (\<lambda>c. fsqrt (fsum (map (\<lambda>x. fmul x x) c))) (cols t)]"

definition t_div :: "tensor \<Rightarrow> tensor \<Rightarrow> tensor" where
  "t_div = tzip fdiv"

text \<open>\<^verbatim>\<open>dictionary[:,indices]\<close>: the listed columns, in the order listed.\<close>

definition take_cols :: "tensor \<Rightarrow> nat list \<Rightarrow> tensor" where
  "take_cols t idx = t_T (of_rows (length idx) (dim t 0) (device t) (map (col t) idx))"

subsection \<open>IHT\<close>

record IHT = InferenceMethod +
  n_iter :: int
  sparsity :: real
  return_all_coefficients :: bool

definition IHT_init :: "real \<Rightarrow> int \<Rightarrow> pyobj option \<Rightarrow> bool \<Rightarrow> IHT" where
  "IHT_init sparsity' n_iter' solver' return_all_coefficients' =
     \<lparr>solver = solver', IHT.n_iter = n_iter', IHT.sparsity = sparsity',
      IHT.return_all_coefficients = return_all_coefficients'\<rparr>"

text \<open>The loop \<^verbatim>\<open>for t in range(0, self.n_iter)\<close> for one sample \<open>y\<close>.\<close>

fun IHT_infer_iterate :: "int \<Rightarrow> tensor \<Rightarrow> tensor \<Rightarrow> nat \<Rightarrow> tensor \<Rightarrow> error + tensor" where
  "IHT_infer_iterate K dictionary y 0 coeff = Inr coeff"
| "IHT_infer_iterate K dictionary y (Suc k) coeff =
     (if dim y 1 \<noteq> dim dictionary 0 \<or> device y \<noteq> device dictionary then Inl RuntimeError
      else
        (let temp = t_add coeff (mm (t_sub y (t_T (mm dictionary (t_T coeff)))) dictionary);
             indices = argsort_desc (elems (t_abs temp));
             coeff1 = zeros [1, dim dictionary 1] (device dictionary);
             idx = py_slice_to K indices;
             coeff2 = index_put coeff1 idx (map (\<lambda>j. elems temp ! j) idx)
         in IHT_infer_iterate K dictionary y k coeff2))"

text \<open>The loop \<^verbatim>\<open>for i in range(0, batch_size)\<close>, over the sample indices left.\<close>

fun IHT_infer_samples ::
  "IHT \<Rightarrow> int \<Rightarrow> tensor \<Rightarrow> tensor \<Rightarrow> nat list \<Rightarrow> tensor \<Rightarrow> error + tensor" where
  "IHT_infer_samples self K data dictionary [] coefficients = Inr coefficients"
| "IHT_infer_samples self K data dictionary (i # is) coefficients =
     (let y = slice_row data i;
          coeff = zeros [1, dim dictionary 1] (device dictionary)
      in case IHT_infer_iterate K dictionary y (nat (IHT.n_iter self)) coeff of
           Inl e \<Rightarrow> Inl e
         | Inr coeff1 \<Rightarrow>
             IHT_infer_samples self K data dictionary is (set_row coefficients i (elems coeff1)))"

definition IHT_infer :: "IHT \<Rightarrow> tensor \<Rightarrow> tensor \<Rightarrow> (error + tensor) \<times> IHT" where
  "IHT_infer self data dictionary =
     (case shape2 data of
        Inl e \<Rightarrow> (Inl e, self)
      | Inr (batch_size, n_features0) \<Rightarrow>
     (case shape2 dictionary of
        Inl e \<Rightarrow> (Inl e, self)
      | Inr (n_features, n_basis) \<Rightarrow>
          (let K = signal_sparsity (IHT.sparsity self) n_basis;
               coefficients = zeros [batch_size, n_basis] (device dictionary)
           in (IHT_infer_samples self K data dictionary [0..<batch_size] coefficients, self))))"

subsection \<open>MP\<close>

record MP = InferenceMethod +
  sparsity :: real
  return_all_coefficients :: bool

definition MP_init :: "real \<Rightarrow> pyobj option \<Rightarrow> bool \<Rightarrow> MP" where
  "MP_init sparsity' solver' return_all_coefficients' =
     \<lparr>solver = solver', MP.sparsity = sparsity',
      MP.return_all_coefficients = return_all_coefficients'\<rparr>"

text \<open>The loop \<^verbatim>\<open>for t in range(0, K)\<close> for one sample.\<close>

fun MP_infer_iterate :: "tensor \<Rightarrow> tensor \<Rightarrow> nat \<Rightarrow> tensor \<Rightarrow> tensor \<Rightarrow> error + tensor" where
  "MP_infer_iterate dictionary dictionary_norms 0 y coeff = Inr coeff"
| "MP_infer_iterate dictionary dictionary_norms (Suc k) y coeff =
     (if dim y 1 \<noteq> dim dictionary 0 \<or> device y \<noteq> device dictionary then Inl RuntimeError
      else
        (let dp = mm y dictionary
         in case argmax (t_div (t_abs dp) dictionary_norms) of
              Inl e \<Rightarrow> Inl e
            | Inr ind \<Rightarrow>
                (let coeff1 = index_put coeff [ind] [elems dp ! ind];
                     y1 = t_sub y (smul (elems dp ! ind)
                                     (of_rows 1 (dim dictionary 0) (device dictionary)
                                        [col dictionary ind]))
                 in MP_infer_iterate dictionary dictionary_norms k y1 coeff1)))"

fun MP_infer_samples ::
  "int \<Rightarrow> tensor \<Rightarrow> tensor \<Rightarrow> tensor \<Rightarrow> nat list \<Rightarrow> tensor \<Rightarrow> error + tensor" where
  "MP_infer_samples K data dictionary dictionary_norms [] coefficients = Inr coefficients"
| "MP_infer_samples K data dictionary dictionary_norms (i # is) coefficients =
     (let y = slice_row data i;
          coeff = zeros [1, dim dictionary 1] (device dictionary)
      in case MP_infer_iterate dictionary dictionary_norms (nat K) y coeff of
           Inl e \<Rightarrow> Inl e
         | Inr coeff1 \<Rightarrow>
             MP_infer_samples K data dictionary dictionary_norms is
               (set_row coefficients i (elems coeff1)))"

definition MP_infer :: "MP \<Rightarrow> tensor \<Rightarrow> tensor \<Rightarrow> (error + tensor) \<times> MP" where
  "MP_infer self data dictionary =
     (case shape2 data of
        Inl e \<Rightarrow> (Inl e, self)
      | Inr (batch_size, n_features0) \<Rightarrow>
     (case shape2 dictionary of
        Inl e \<Rightarrow> (Inl e, self)
      | Inr (n_features, n_basis) \<Rightarrow>
          (let K = signal_sparsity (MP.sparsity self) n_basis;
               dictionary_norms = col_norms dictionary;
               coefficients = zeros [batch_size, n_basis] (device dictionary)
           in (MP_infer_samples K data dictionary dictionary_norms [0..<batch_size] coefficients,
               self))))"

subsection \<open>OMP\<close>

record OMP = InferenceMethod +
  sparsity :: real
  return_all_coefficients :: bool

definition OMP_init :: "real \<Rightarrow> pyobj option \<Rightarrow> bool \<Rightarrow> OMP" where
  "OMP_init sparsity' solver' return_all_coefficients' =
     \<lparr>solver = solver', OMP.sparsity = sparsity',
      OMP.return_all_coefficients = return_all_coefficients'\<rparr>"

text \<open>
  The loop \<^verbatim>\<open>for t in range(0, K)\<close> for one sample \<open>y\<close>. \<open>pinv\<close> is
  \<^verbatim>\<open>torch.linalg.pinv\<close>. Besides the coefficients the function returns the residual
  \<open>y_res\<close> at the start and after every step, in order, so that its norms can be read.
\<close>

fun OMP_infer_iterate ::
  "(tensor \<Rightarrow> tensor) \<Rightarrow> tensor \<Rightarrow> tensor \<Rightarrow> tensor \<Rightarrow> nat \<Rightarrow> tensor \<Rightarrow> nat list \<Rightarrow> tensor \<Rightarrow>
   tensor list \<Rightarrow> error + tensor \<times> tensor list" where
  "OMP_infer_iterate pinv dictionary dictionary_norms y 0 y_res indices coeff trace =
     Inr (coeff, trace)"
| "OMP_infer_iterate pinv dictionary dictionary_norms y (Suc k) y_res indices coeff trace =
     (if dim y 1 \<noteq> dim dictionary 0 \<or> device y \<noteq> device dictionary then Inl RuntimeError
      else
        (let dp = mm y_res dictionary
         in case argmax (t_div (t_abs dp) dictionary_norms) of
              Inl e \<Rightarrow> Inl e
            | Inr ind \<Rightarrow>
                (let indices1 = indices @ [ind];
                     p = pinv (take_cols dictionary indices1)
                 in if shape p \<noteq> [length indices1, dim dictionary 0] then Inl RuntimeError
                    else
                      (let coeff1 = index_put coeff indices1 (elems (mm p (t_T y)));
                           y_res1 = t_sub y (t_T (mm dictionary (t_T coeff1)))
                       in OMP_infer_iterate pinv dictionary dictionary_norms y k y_res1 indices1
                            coeff1 (trace @ [y_res1])))))"

fun OMP_infer_samples ::
  "(tensor \<Rightarrow> tensor) \<Rightarrow> int \<Rightarrow> tensor \<Rightarrow> tensor \<Rightarrow> tensor \<Rightarrow> nat list \<Rightarrow> tensor \<Rightarrow> error + tensor" where
  "OMP_infer_samples pinv K data dictionary dictionary_norms [] coefficients = Inr coefficients"
| "OMP_infer_samples pinv K data dictionary dictionary_norms (i # is) coefficients =
     (let y = slice_row data i;
          y_res = y;
          indices = [];
          coeff = zeros [1, dim dictionary 1] (device dictionary)
      in case OMP_infer_iterate pinv dictionary dictionary_norms y (nat K) y_res indices coeff
                [y_res] of
           Inl e \<Rightarrow> Inl e
         | Inr (coeff1, trace) \<Rightarrow>
             OMP_infer_samples pinv K data dictionary dictionary_norms is
               (set_row coefficients i (elems coeff1)))"

definition OMP_infer ::
  "(tensor \<Rightarrow> tensor) \<Rightarrow> OMP \<Rightarrow> tensor \<Rightarrow> tensor \<Rightarrow> (error + tensor) \<times> OMP" where
  "OMP_infer pinv self data dictionary =
     (case shape2 data of
        Inl e \<Rightarrow> (Inl e, self)
      | Inr (batch_size, n_features0) \<Rightarrow>
     (case shape2 dictionary of
        Inl e \<Rightarrow> (Inl e, self)
      | Inr (n_features, n_basis) \<Rightarrow>
          (let K = signal_sparsity (OMP.sparsity self) n_basis;
               dictionary_norms = col_norms dictionary;
               coefficients = zeros [batch_size, n_basis] (device dictionary)
           in (OMP_infer_samples pinv K data dictionary dictionary_norms [0..<batch_size]
                 coefficients, self))))"

subsection \<open>ISTA\<close>

text \<open>
  \<^verbatim>\<open>__init__\<close> sets \<^verbatim>\<open>self.coefficients = None\<close> and does not set \<^verbatim>\<open>self.threshold\<close>:
  the attribute exists only once \<^verbatim>\<open>infer\<close> has assigned it (\<open>None\<close> below is the
  missing attribute).
\<close>

record ISTA = InferenceMethod +
  n_iter :: int
  sparsity_penalty :: fval
  stop_early :: bool
  epsilon :: fval
  coefficients :: "tensor option"
  return_all_coefficients :: bool
  threshold :: "fval option"

definition ISTA_init ::
  "int \<Rightarrow> fval \<Rightarrow> bool \<Rightarrow> fval \<Rightarrow> pyobj option \<Rightarrow> bool \<Rightarrow> ISTA" where
  "ISTA_init n_iter' sparsity_penalty' stop_early' epsilon' solver' return_all_coefficients' =
     \<lparr>solver = solver', ISTA.n_iter = n_iter', ISTA.sparsity_penalty = sparsity_penalty',
      ISTA.stop_early = stop_early', ISTA.epsilon = epsilon', ISTA.coefficients = None,
      ISTA.return_all_coefficients = return_all_coefficients', ISTA.threshold = None\<rparr>"

definition ISTA_threshold_nonlinearity :: "ISTA \<Rightarrow> tensor \<Rightarrow> error + tensor" where
  "ISTA_threshold_nonlinearity self u =
     (case ISTA.threshold self of
        None \<Rightarrow> Inl (AttributeError ''threshold'')
      | Some th \<Rightarrow>
          (let a = t_clamp_min (t_sub_scalar (t_abs u) th) (Fin 0);
               a = t_mul (t_sign u) a
           in Inr a))"

text \<open>
  The state of the loop of \<^verbatim>\<open>ISTA.infer\<close>. \<open>u_is_coeff_0\<close> says that the variable
  \<open>u\<close> is bound to the caller's warm-start object, so that the in-place
  \<^verbatim>\<open>u -= ...\<close> updates that object; \<^verbatim>\<open>u = self.coefficients\<close> binds \<open>u\<close> to another
  object. (From then on \<open>u\<close> and \<^verbatim>\<open>self.coefficients\<close> are one object until the
  next assignment to \<^verbatim>\<open>self.coefficients\<close>, which follows the in-place update at once.)
\<close>

record ista_state =
  st_self :: ISTA
  st_coeff_0 :: "tensor option"
  st_u :: tensor
  st_u_is_coeff_0 :: bool
  st_residual :: tensor
  st_coefficients :: tensor

fun ISTA_infer_loop ::
  "bool \<Rightarrow> tensor \<Rightarrow> tensor \<Rightarrow> fval \<Rightarrow> nat \<Rightarrow> ista_state \<Rightarrow> error option \<times> ista_state" where
  "ISTA_infer_loop use_checknan data dictionary stepsize 0 st = (None, st)"
| "ISTA_infer_loop use_checknan data dictionary stepsize (Suc k) st =
     (let old_u = st_u st
      in case (if ISTA.return_all_coefficients (st_self st)
               then (case ISTA_threshold_nonlinearity (st_self st) (st_u st) of
                       Inl e \<Rightarrow> Inl e
                     | Inr a \<Rightarrow> Inr (concat_dim1 (st_coefficients st) (unsqueeze1 a)))
               else Inr (st_coefficients st)) of
           Inl e \<Rightarrow> (Some e, st)
         | Inr coefficients1 \<Rightarrow>
     (let u1 = t_sub (st_u st) (smul stepsize (mm (st_residual st) dictionary));
          st1 = st\<lparr>st_coefficients := coefficients1, st_u := u1,
                   st_coeff_0 := (if st_u_is_coeff_0 st then Some u1 else st_coeff_0 st)\<rparr>
      in case ISTA_threshold_nonlinearity (st_self st1) u1 of
           Inl e \<Rightarrow> (Some e, st1)
         | Inr c \<Rightarrow>
     (let st2 = st1\<lparr>st_self := (st_self st1)\<lparr>ISTA.coefficients := Some c\<rparr>\<rparr>
      in if ISTA.stop_early (st_self st2) \<and>
            flt (t_mean (t_div_scalar (t_abs (t_sub old_u u1)) stepsize))
                (ISTA.epsilon (st_self st2))
         then (None, st2)
         else
           (let st3 = st2\<lparr>st_residual := t_sub (t_T (mm dictionary (t_T c))) data,
                          st_u := c, st_u_is_coeff_0 := False\<rparr>
            in if use_checknan then
                 (case checknan c ''coefficients'' of
                    Inl e \<Rightarrow> (Some e, st3)
                  | Inr _ \<Rightarrow> ISTA_infer_loop use_checknan data dictionary stepsize k st3)
               else ISTA_infer_loop use_checknan data dictionary stepsize k st3))))"

text \<open>\<^verbatim>\<open>t.shape[i]\<close> raises IndexError when \<open>t\<close> has too few dimensions.\<close>

definition shape_at :: "tensor \<Rightarrow> nat \<Rightarrow> error + nat" where
  "shape_at t i = (if i < length (shape t) then Inr (shape t ! i) else Inl IndexError)"

text \<open>
  \<^verbatim>\<open>ISTA.infer(self, data, dictionary, coeff_0=None, use_checknan=False)\<close>.
  \<open>eigvalsh\<close> is \<^verbatim>\<open>torch.linalg.eigvalsh\<close>: the eigenvalues of a symmetric matrix in
  ascending order, as a one-dimensional tensor; \<^verbatim>\<open>[-1]\<close> reads the last.
\<close>

text \<open>
  \<^verbatim>\<open>lipschitz_constant = torch.linalg.eigvalsh(torch.mm(dictionary.T, dictionary))[-1]\<close>
  and \<^verbatim>\<open>stepsize = 1. / lipschitz_constant\<close>.
\<close>

definition ISTA_lipschitz_constant :: "(tensor \<Rightarrow> tensor) \<Rightarrow> tensor \<Rightarrow> error + fval" where
  "ISTA_lipschitz_constant eigvalsh dictionary =
     (case elems (eigvalsh (mm (t_T dictionary) dictionary)) of
        [] \<Rightarrow> Inl IndexError
      | ev # evs \<Rightarrow> Inr (last (ev # evs)))"

definition ISTA_stepsize :: "fval \<Rightarrow> fval" where
  "ISTA_stepsize lipschitz_constant = fdiv (Fin 1) lipschitz_constant"

definition ISTA_infer ::
  "(tensor \<Rightarrow> tensor) \<Rightarrow> ISTA \<Rightarrow> tensor \<Rightarrow> tensor \<Rightarrow> tensor option \<Rightarrow> bool \<Rightarrow>
   (error + tensor) \<times> ISTA \<times> tensor option" where
  "ISTA_infer eigvalsh self data dictionary coeff_0 use_checknan =
     (case shape_at data 0 of
        Inl e \<Rightarrow> (Inl e, self, coeff_0)
      | Inr batch_size \<Rightarrow>
     (case shape_at dictionary 1 of
        Inl e \<Rightarrow> (Inl e, self, coeff_0)
      | Inr n_basis \<Rightarrow>
     (let dev = device dictionary
      in if length (shape dictionary) \<noteq> 2 then (Inl RuntimeError, self, coeff_0)
         else
     (case ISTA_lipschitz_constant eigvalsh dictionary of
        Inl e \<Rightarrow> (Inl e, self, coeff_0)
      | Inr lipschitz_constant \<Rightarrow>
     (let stepsize = ISTA_stepsize lipschitz_constant;
          self1 = self\<lparr>ISTA.threshold := Some (fmul stepsize (ISTA.sparsity_penalty self))\<rparr>;
          u = (case coeff_0 of
                 Some c \<Rightarrow> to_device c dev
               | None \<Rightarrow> zeros [batch_size, n_basis] dev);
          u_is_coeff_0 = (case coeff_0 of Some c \<Rightarrow> device c = dev | None \<Rightarrow> False);
          coefficients0 = zeros [batch_size, 0, n_basis] dev
      in case ISTA_threshold_nonlinearity self1 u of
           Inl e \<Rightarrow> (Inl e, self1, coeff_0)
         | Inr c0 \<Rightarrow>
     (let self2 = self1\<lparr>ISTA.coefficients := Some c0\<rparr>
      in if shape data \<noteq> [batch_size, dim dictionary 0] \<or> device data \<noteq> dev \<or>
            shape u \<noteq> [batch_size, n_basis]
         then (Inl RuntimeError, self2, coeff_0)
         else
     (let residual = t_sub (t_T (mm dictionary (t_T c0))) data
      in case ISTA_infer_loop use_checknan data dictionary stepsize (nat (ISTA.n_iter self2))
                \<lparr>st_self = self2, st_coeff_0 = coeff_0, st_u = u,
                 st_u_is_coeff_0 = u_is_coeff_0, st_residual = residual,
                 st_coefficients = coefficients0\<rparr> of
           (Some e, st) \<Rightarrow> (Inl e, st_self st, st_coeff_0 st)
         | (None, st) \<Rightarrow>
             (case ISTA.coefficients (st_self st) of
                None \<Rightarrow> (Inl (AttributeError ''clone''), st_self st, st_coeff_0 st)
              | Some c \<Rightarrow>
                  (Inr (squeeze (concat_dim1 (st_coefficients st) (unsqueeze1 c))),
                   st_self st, st_coeff_0 st)))))))))"

subsection \<open>Instances with the constructors' default arguments\<close>

text \<open>\<^verbatim>\<open>LCA()\<close>, \<^verbatim>\<open>Vanilla()\<close> and \<^verbatim>\<open>ISTA()\<close>.\<close>

definition default_LCA :: LCA where
  "default_LCA =
     \<lparr>solver = None, LCA.threshold = Fin (1 / 10), LCA.coeff_lr = Fin (1 / 1000),
      LCA.stop_early = False, LCA.epsilon = Fin (1 / 100), LCA.n_iter = 100,
      LCA.return_all_coefficients = PyStr ''none'' True\<rparr>"

definition default_Vanilla :: Vanilla where
  "default_Vanilla =
     Vanilla_init 100 (Fin (1 / 1000)) (Fin (1 / 5)) False (Fin (1 / 100)) None False"

definition default_ISTA :: ISTA where
  "default_ISTA = ISTA_init 100 (Fin (1 / 100)) False (Fin (1 / 100)) None False"

subsection \<open>A sample and a dictionary\<close>

text \<open>
  The identity dictionary of two features and two atoms, the single sample \<open>(1, 0)\<close>,
  and the eigenvalues \<open>(1, 1)\<close> of the identity's Gram matrix.
\<close>

definition identity_dictionary :: tensor where
  "identity_dictionary = \<lparr>shape = [2, 2], elems = [Fin 1, Fin 0, Fin 0, Fin 1], device = CPU\<rparr>"

definition single_sample :: tensor where
  "single_sample = \<lparr>shape = [1, 2], elems = [Fin 1, Fin 0], device = CPU\<rparr>"

definition identity_eigvalsh :: "tensor \<Rightarrow> tensor" where
  "identity_eigvalsh m = \<lparr>shape = [2], elems = [Fin 1, Fin 1], device = device m\<rparr>"


subsection \<open>The invariant of the loop of ISTA.infer\<close>

text \<open>
  The shapes of \<open>u\<close> and of the trajectory, the threshold attribute being set, and
  \<^verbatim>\<open>self.coefficients\<close> holding a tensor of the shape of \<open>u\<close>.
\<close>

definition ista_inv :: "nat \<Rightarrow> nat \<Rightarrow> nat \<Rightarrow> ista_state \<Rightarrow> bool" where
  "ista_inv B N T st =
     (shape (st_u st) = [B, N] \<and> shape (st_coefficients st) = [B, T, N] \<and>
      ISTA.threshold (st_self st) \<noteq> None \<and>
      (\<exists>c. ISTA.coefficients (st_self st) = Some c \<and> shape c = [B, N]))"



subsection \<open>Further instances and backend stand-ins\<close>

text \<open>The zero sample, also used as a warm start of zeros.\<close>

definition zero_sample :: tensor where
  "zero_sample = \<lparr>shape = [1, 2], elems = [Fin 0, Fin 0], device = CPU\<rparr>"

text \<open>
  A state of the random generator: the next two samples are 0, all later ones 0.5.
\<close>

definition two_draws :: rng where
  "two_draws i = (if i < 2 then 0 else 1 / 2)"

text \<open>
  Plain gradient descent as an optimizer object; a loss that does not depend on the
  coefficients, and the gradient of such a loss.
\<close>

primcorec gradient_descent :: "fval \<Rightarrow> optimizer" where
  "gradient_descent lr = Optimizer (\<lambda>p g. (t_sub p (smul lr g), gradient_descent lr))"

definition constant_loss :: "tensor \<Rightarrow> tensor \<Rightarrow> tensor \<Rightarrow> error + tensor" where
  "constant_loss data dictionary coeffs = Inr (zeros [dim data 0] (device dictionary))"

definition zero_gradient :: backward where
  "zero_gradient f coeffs v = zeros (shape coeffs) (device coeffs)"

text \<open>\<^verbatim>\<open>LSM()\<close>, and instances of the other solvers.\<close>

definition default_LSM :: LSM where
  "default_LSM =
     LSM_init 100 6 (Fin (1 / 100)) (Fin 80) (Fin (5 / 1000)) (Fin (1 / 100)) None False"

definition example_PyTorchOptimizer :: PyTorchOptimizer where
  "example_PyTorchOptimizer =
     PyTorchOptimizer_init (\<lambda>p. gradient_descent (Fin (1 / 10))) constant_loss 100 None"

definition example_IHT :: IHT where
  "example_IHT = IHT_init (1 / 2) 10 None False"

definition example_MP :: MP where
  "example_MP = MP_init (1 / 2) None False"

definition example_OMP :: OMP where
  "example_OMP = OMP_init 1 None False"

text \<open>
  The pseudo-inverse of a matrix whose columns all equal one unit vector: its
  transpose divided by the number of columns.
\<close>

definition pinv_unit_columns :: "tensor \<Rightarrow> tensor" where
  "pinv_unit_columns a = smul (fdiv (Fin 1) (Fin (real (dim a 1)))) (t_T a)"

subsection \<open>Counting nonzero entries\<close>

text \<open>
  The number of entries of a row that are not zero (NaN and the infinities count), and
  the property of a coefficient row of \<open>N\<close> entries to have at most \<open>K\<close> of them.
\<close>

definition count_nonzero :: "fval list \<Rightarrow> nat" where
  "count_nonzero xs = length (filter (\<lambda>x. x \<noteq> Fin 0) xs)"


subsection \<open>The Penrose conditions\<close>

text \<open>\<open>x\<close> is the pseudo-inverse of \<open>a\<close> when the four conditions hold.\<close>

definition penrose :: "tensor \<Rightarrow> tensor \<Rightarrow> bool" where
  "penrose a x = (mm (mm a x) a = a \<and> mm (mm x a) x = x \<and>
                  t_T (mm a x) = mm a x \<and> t_T (mm x a) = mm x a)"

subsection \<open>Errors of construction and of inference\<close>


definition inference_errors :: "error set" where
  "inference_errors =
     {ValueError ''wrong number of values to unpack'',
      ValueError ''InferenceMethod error: nan in coefficients.'',
      RuntimeError, IndexError, ZeroDivisionError,
      AttributeError ''threshold'', AttributeError ''clone''}"

section \<open>Properties\<close>

subsection \<open>Shapes of the tensor operations\<close>

lemma shape_tmap [simp]: "shape (tmap f t) = shape t"
  by (simp add: tmap_def)

lemma shape_tzip [simp]: "shape (tzip f a b) = shape a"
  by (simp add: tzip_def)

lemma shape_elementwise [simp]:
  "shape (t_abs t) = shape t"
  "shape (t_sign t) = shape t"
  "shape (t_add a b) = shape a"
  "shape (t_sub a b) = shape a"
  "shape (t_mul a b) = shape a"
  "shape (t_sub_scalar t c) = shape t"
  "shape (t_div_scalar t c) = shape t"
  "shape (smul c t) = shape t"
  "shape (t_clamp_min t c) = shape t"
  by (simp_all add: t_abs_def t_sign_def t_add_def t_sub_def t_mul_def t_sub_scalar_def
      t_div_scalar_def smul_def t_clamp_min_def)

lemma shape_LCA_threshold_nonlinearity [simp]:
  "shape (LCA_threshold_nonlinearity self u) = shape u"
  by (simp add: LCA_threshold_nonlinearity_def Let_def)

lemma shape_unsqueeze1_2d [simp]: "shape t = [a, b] \<Longrightarrow> shape (unsqueeze1 t) = [a, 1, b]"
  by (simp add: unsqueeze1_def)

lemma shape_concat_dim1 [simp]:
  "shape a = [n, ka, m] \<Longrightarrow> shape b = [n', kb, m'] \<Longrightarrow>
   shape (concat_dim1 a b) = [n, ka + kb, m]"
  by (simp add: concat_dim1_def dim_def Let_def)

subsection \<open>The NaN guard\<close>

text \<open>
  Claim C4, as amended: \<^verbatim>\<open>checknan\<close> raises the ValueError whose message names the
  label exactly when the tensor has a NaN entry, and returns normally exactly when it
  has none. Infinite entries do not make it raise.
\<close>

theorem checknan_raises_iff_nan:
  "(checknan data name = Inl (ValueError (''InferenceMethod error: nan in '' @ name @ ''.'')))
     = (NaN \<in> set (elems data)) \<and>
   (checknan data name = Inr ()) = (NaN \<notin> set (elems data))"
  by (auto simp: checknan_def isnan_def list_ex_iff)

text \<open>
  Claim C4 as stated fails: a tensor with an infinite entry and no NaN has a non-finite
  element, and \<^verbatim>\<open>checknan\<close> returns without raising.
\<close>

theorem checknan_passes_infinity:
  "list_ex (\<lambda>x. \<not> isfinite x) (elems \<lparr>shape = [2], elems = [Fin 1, PInf], device = CPU\<rparr>) \<and>
   checknan \<lparr>shape = [2], elems = [Fin 1, PInf], device = CPU\<rparr> ''coefficients'' = Inr ()"
  by (simp add: checknan_def isnan_def isfinite_def)

subsection \<open>The soft threshold\<close>

lemma soft_below:
  "0 \<le> th \<Longrightarrow> fle (fabs x) (Fin th) \<Longrightarrow>
   fmul (fsign x) (clamp_min (Fin 0) (fsub (fabs x) (Fin th))) = Fin 0"
  by (cases x) (auto simp: clamp_min_def fsub_def isnan_def)

lemma soft_above:
  "0 \<le> th \<Longrightarrow> flt (Fin th) (fabs x) \<Longrightarrow>
   clamp_min (Fin 0) (fsub (fabs x) (Fin th)) = fsub (fabs x) (Fin th)"
  by (cases x) (auto simp: clamp_min_def fsub_def isnan_def)

lemma elems_soft:
  "i < length (elems u) \<Longrightarrow>
   elems (t_mul (t_sign u) (t_clamp_min (t_sub_scalar (t_abs u) th) (Fin 0))) ! i =
     fmul (fsign (elems u ! i)) (clamp_min (Fin 0) (fsub (fabs (elems u ! i)) th))"
  by (simp add: t_mul_def t_sign_def t_clamp_min_def t_sub_scalar_def t_abs_def tzip_def
      tmap_def)

lemma elems_LCA_threshold_nonlinearity:
  "i < length (elems u) \<Longrightarrow>
   elems (LCA_threshold_nonlinearity self u) ! i =
     fmul (fsign (elems u ! i))
          (clamp_min (Fin 0) (fsub (fabs (elems u ! i)) (LCA.threshold self)))"
  by (simp add: LCA_threshold_nonlinearity_def Let_def elems_soft)

lemma ISTA_threshold_nonlinearity_Some:
  "ISTA.threshold self = Some th \<Longrightarrow>
   ISTA_threshold_nonlinearity self u =
     Inr (t_mul (t_sign u) (t_clamp_min (t_sub_scalar (t_abs u) th) (Fin 0)))"
  by (simp add: ISTA_threshold_nonlinearity_def Let_def)

text \<open>
  Claim C2, as amended: for a finite threshold \<open>th \<ge> 0\<close> and every tensor \<open>u\<close> (NaN and
  infinite entries included), \<^verbatim>\<open>LCA.threshold_nonlinearity\<close> and
  \<^verbatim>\<open>ISTA.threshold_nonlinearity\<close> (once \<^verbatim>\<open>infer\<close> has set the threshold) return 0 at
  every entry with \<open>|u| \<le> th\<close> and \<open>sign(u) * (|u| - th)\<close> at every entry with
  \<open>|u| > th\<close>.
\<close>

theorem threshold_nonlinearity_soft:
  assumes "0 \<le> th" and "i < length (elems u)"
  shows "(LCA.threshold lca = Fin th \<longrightarrow>
            (fle (fabs (elems u ! i)) (Fin th) \<longrightarrow>
               elems (LCA_threshold_nonlinearity lca u) ! i = Fin 0) \<and>
            (flt (Fin th) (fabs (elems u ! i)) \<longrightarrow>
               elems (LCA_threshold_nonlinearity lca u) ! i =
                 fmul (fsign (elems u ! i)) (fsub (fabs (elems u ! i)) (Fin th)))) \<and>
         (ISTA.threshold ista = Some (Fin th) \<longrightarrow>
            (\<exists>a. ISTA_threshold_nonlinearity ista u = Inr a \<and>
              (fle (fabs (elems u ! i)) (Fin th) \<longrightarrow> elems a ! i = Fin 0) \<and>
              (flt (Fin th) (fabs (elems u ! i)) \<longrightarrow>
                 elems a ! i =
                   fmul (fsign (elems u ! i)) (fsub (fabs (elems u ! i)) (Fin th)))))"
  using assms
  by (simp add: elems_LCA_threshold_nonlinearity ISTA_threshold_nonlinearity_Some elems_soft
      soft_below soft_above)

text \<open>
  The theorem at the threshold 0.1 and the tensor \<open>[[0.05, -3]]\<close>: the first entry
  becomes 0, the second -2.9.
\<close>

theorem threshold_nonlinearity_soft_witness:
  "elems (LCA_threshold_nonlinearity default_LCA
            \<lparr>shape = [1, 2], elems = [Fin (1 / 20), Fin (- 3)], device = CPU\<rparr>) ! 0 = Fin 0 \<and>
   elems (LCA_threshold_nonlinearity default_LCA
            \<lparr>shape = [1, 2], elems = [Fin (1 / 20), Fin (- 3)], device = CPU\<rparr>) ! 1
     = Fin (- (29 / 10)) \<and>
   (\<exists>a. ISTA_threshold_nonlinearity (default_ISTA\<lparr>ISTA.threshold := Some (Fin (1 / 10))\<rparr>)
            \<lparr>shape = [1, 2], elems = [Fin (1 / 20), Fin (- 3)], device = CPU\<rparr> = Inr a \<and>
        elems a ! 0 = Fin 0 \<and> elems a ! 1 = Fin (- (29 / 10)))"
  using threshold_nonlinearity_soft [of "1 / 10" 0
          "\<lparr>shape = [1, 2], elems = [Fin (1 / 20), Fin (- 3)], device = CPU\<rparr>"
          default_LCA "default_ISTA\<lparr>ISTA.threshold := Some (Fin (1 / 10))\<rparr>"]
        threshold_nonlinearity_soft [of "1 / 10" 1
          "\<lparr>shape = [1, 2], elems = [Fin (1 / 20), Fin (- 3)], device = CPU\<rparr>"
          default_LCA "default_ISTA\<lparr>ISTA.threshold := Some (Fin (1 / 10))\<rparr>"]
  by (auto simp add: default_LCA_def fsub_def)

text \<open>
  Claim C2 as stated fails at the threshold \<open>+\<infinity>\<close>, which is \<open>\<ge> 0\<close>: at an entry
  \<open>u = +\<infinity>\<close> one has \<open>|u| \<le> \<theta>\<close>, \<^verbatim>\<open>torch.abs(u) - threshold\<close> is NaN, \<^verbatim>\<open>clamp\<close> keeps
  the NaN, and the result is NaN, not 0.
\<close>

theorem threshold_nonlinearity_infinite_threshold:
  "fle (Fin 0) PInf \<and> fle (fabs PInf) PInf \<and>
   elems (LCA_threshold_nonlinearity (default_LCA\<lparr>LCA.threshold := PInf\<rparr>)
            \<lparr>shape = [1, 1], elems = [PInf], device = CPU\<rparr>) ! 0 = NaN \<and>
   NaN \<noteq> Fin 0"
  by (simp add: LCA_threshold_nonlinearity_def Let_def t_mul_def t_sign_def t_clamp_min_def
      t_sub_scalar_def t_abs_def tzip_def tmap_def clamp_min_def fsub_def isnan_def)

subsection \<open>Shapes of the results of LCA, Vanilla and ISTA\<close>

lemma LCA_infer_loop_shape:
  "LCA_infer_loop self chk b G k u c = Inr (u1, c1) \<Longrightarrow> shape u = [B, N] \<Longrightarrow>
   shape c = [B, T, N] \<Longrightarrow>
   shape u1 = [B, N] \<and>
   (\<exists>T'. shape c1 = [B, T', N] \<and> T \<le> T' \<and> T' \<le> T + k \<and>
      (py_is (LCA.return_all_coefficients self) ''none'' \<longrightarrow> T' = T))"
proof (induction k arbitrary: u c T)
  case 0
  then show ?case by auto
next
  case (Suc k)
  let ?c1 = "(if \<not> py_is (LCA.return_all_coefficients self) ''none'' then
               (if py_is (LCA.return_all_coefficients self) ''active''
                then concat_dim1 c (unsqueeze1 (LCA_threshold_nonlinearity self u))
                else concat_dim1 c (unsqueeze1 u))
             else c)"
  let ?u1 = "t_add u (smul (LCA.coeff_lr self) (LCA_grad b G u (LCA_threshold_nonlinearity self u)))"
  have su: "shape ?u1 = [B, N]" using Suc.prems by simp
  have sc: "shape ?c1 = [B, (if py_is (LCA.return_all_coefficients self) ''none'' then T else T + 1), N]"
    using Suc.prems by simp
  show ?case
  proof (cases "LCA.stop_early self \<and>
            flt (fdiv (t_norm (t_sub u ?u1)) (t_norm u)) (LCA.epsilon self)")
    case True
    with Suc.prems(1) have "u1 = ?u1" "c1 = ?c1" by (simp_all add: Let_def)
    with su sc show ?thesis by auto
  next
    case False
    with Suc.prems(1) have rec: "LCA_infer_loop self chk b G k ?u1 ?c1 = Inr (u1, c1)"
      by (simp add: Let_def split: if_splits sum.splits)
    from Suc.IH[OF rec su sc] show ?thesis by (auto split: if_splits)
  qed
qed

lemma LCA_infer_loop_returns:
  "\<exists>r. LCA_infer_loop self False b G k u c = Inr r"
  by (induction k arbitrary: u c) (auto simp: Let_def)

lemma Vanilla_infer_loop_shape:
  "Vanilla_infer_loop self chk data dictionary k a r c = Inr (a1, c1) \<Longrightarrow> shape a = [B, N] \<Longrightarrow>
   shape c = [B, T, N] \<Longrightarrow>
   shape a1 = [B, N] \<and>
   (\<exists>T'. shape c1 = [B, T', N] \<and> T \<le> T' \<and> T' \<le> T + k \<and>
      (\<not> Vanilla.return_all_coefficients self \<longrightarrow> T' = T))"
proof (induction k arbitrary: a r c T)
  case 0
  then show ?case by auto
next
  case (Suc k)
  let ?c1 = "(if Vanilla.return_all_coefficients self then concat_dim1 c (unsqueeze1 a) else c)"
  let ?a1 = "t_add a (smul (Vanilla.coeff_lr self) (Vanilla_grad self r dictionary a))"
  have su: "shape ?a1 = [B, N]" using Suc.prems by simp
  have sc: "shape ?c1 = [B, (if Vanilla.return_all_coefficients self then T + 1 else T), N]"
    using Suc.prems by simp
  show ?case
  proof (cases "Vanilla.stop_early self \<and>
            flt (fdiv (t_norm (t_sub a ?a1)) (t_norm a)) (Vanilla.epsilon self)")
    case True
    with Suc.prems(1) have "a1 = ?a1" "c1 = ?c1" by (simp_all add: Let_def)
    with su sc show ?thesis by auto
  next
    case False
    with Suc.prems(1) have rec: "Vanilla_infer_loop self chk data dictionary k ?a1
        (t_sub data (t_T (mm dictionary (t_T ?a1)))) ?c1 = Inr (a1, c1)"
      by (simp add: Let_def split: if_splits sum.splits)
    from Suc.IH[OF rec su sc] show ?thesis by (auto split: if_splits)
  qed
qed

lemma Vanilla_infer_loop_returns:
  "\<exists>x. Vanilla_infer_loop self False data dictionary k a r c = Inr x"
  by (induction k arbitrary: a r c) (auto simp: Let_def)

lemma shape_ISTA_threshold_nonlinearity:
  "ISTA_threshold_nonlinearity self u = Inr a \<Longrightarrow> shape a = shape u"
  by (auto simp: ISTA_threshold_nonlinearity_def Let_def split: option.splits)

lemma ISTA_threshold_nonlinearity_returns:
  "ISTA.threshold self = Some th \<Longrightarrow> \<exists>a. ISTA_threshold_nonlinearity self u = Inr a"
  by (simp add: ISTA_threshold_nonlinearity_def Let_def)

lemma ISTA_infer_loop_shape:
  "ISTA_infer_loop chk data dictionary stepsize k st = (err, st') \<Longrightarrow> ista_inv B N T st \<Longrightarrow>
   (\<exists>T'. ista_inv B N T' st' \<and> T \<le> T' \<and> T' \<le> T + k \<and>
      (\<not> ISTA.return_all_coefficients (st_self st) \<longrightarrow> T' = T)) \<and>
   (\<not> chk \<longrightarrow> err = None)"
proof (induction k arbitrary: st T)
  case 0
  then show ?case by auto
next
  case (Suc k)
  from Suc.prems(2) obtain th where th: "ISTA.threshold (st_self st) = Some th"
    by (auto simp: ista_inv_def)
  let ?thr = "\<lambda>u. t_mul (t_sign u) (t_clamp_min (t_sub_scalar (t_abs u) th) (Fin 0))"
  let ?c1 = "(if ISTA.return_all_coefficients (st_self st)
              then concat_dim1 (st_coefficients st) (unsqueeze1 (?thr (st_u st)))
              else st_coefficients st)"
  let ?T1 = "(if ISTA.return_all_coefficients (st_self st) then T + 1 else T)"
  let ?u1 = "t_sub (st_u st) (smul stepsize (mm (st_residual st) dictionary))"
  let ?c = "?thr ?u1"
  let ?st2 = "st\<lparr>st_coefficients := ?c1, st_u := ?u1,
                   st_coeff_0 := (if st_u_is_coeff_0 st then Some ?u1 else st_coeff_0 st),
                   st_self := (st_self st)\<lparr>ISTA.coefficients := Some ?c\<rparr>\<rparr>"
  let ?st3 = "?st2\<lparr>st_residual := t_sub (t_T (mm dictionary (t_T ?c))) data,
                          st_u := ?c, st_u_is_coeff_0 := False\<rparr>"
  have inv2: "ista_inv B N ?T1 ?st2" using Suc.prems(2) th by (auto simp: ista_inv_def)
  have inv3: "ista_inv B N ?T1 ?st3" using Suc.prems(2) th by (auto simp: ista_inv_def)
  have ra3: "ISTA.return_all_coefficients (st_self ?st3) = ISTA.return_all_coefficients (st_self st)"
    by simp
  show ?case
  proof (cases "ISTA.stop_early (st_self st) \<and>
            flt (t_mean (t_div_scalar (t_abs (t_sub (st_u st) ?u1)) stepsize))
                (ISTA.epsilon (st_self st))")
    case True
    with Suc.prems(1) th have "st' = ?st2" "err = None"
      by (auto simp add: Let_def ISTA_threshold_nonlinearity_Some split: if_splits)
    with inv2 show ?thesis by auto
  next
    case False
    show ?thesis
    proof (cases "chk \<and> NaN \<in> set (elems ?c)")
      case True
      with False Suc.prems(1) th have "st' = ?st3"
        by (auto simp add: Let_def ISTA_threshold_nonlinearity_Some checknan_def isnan_def list_ex_iff split: if_splits)
      with inv3 True show ?thesis by auto
    next
      case nonan: False
      with False Suc.prems(1) th
      have rec: "ISTA_infer_loop chk data dictionary stepsize k ?st3 = (err, st')"
        by (auto simp add: Let_def ISTA_threshold_nonlinearity_Some checknan_def isnan_def list_ex_iff split: if_splits)
      from Suc.IH[OF rec inv3] ra3 show ?thesis by (auto split: if_splits)
    qed
  qed
qed

lemma shape_zeros [simp]: "shape (zeros shp dev) = shp"
  by (simp add: zeros_def full_def)

lemma shape_to_device [simp]: "shape (to_device t dev) = shape t"
  by (simp add: to_device_def)

lemma shape_squeeze [simp]: "shape (squeeze t) = filter (\<lambda>d. d \<noteq> 1) (shape t)"
  by (simp add: squeeze_def)

lemma shape2_2d [simp]: "shape t = [a, b] \<Longrightarrow> shape2 t = Inr (a, b)"
  by (simp add: shape2_def)

lemma LCA_infer_shape:
  assumes "shape data = [B, F]" and "shape dictionary = [F, N]"
    and "device data = device dictionary"
  shows "\<exists>t T. fst (LCA_infer self data dictionary None False) = Inr t \<and>
           shape t = filter (\<lambda>d. d \<noteq> 1) [B, T, N] \<and> 1 \<le> T \<and>
           T \<le> nat (LCA.n_iter self) + 1 \<and>
           (py_is (LCA.return_all_coefficients self) ''none'' \<longrightarrow> T = 1)"
proof -
  let ?b = "t_T (mm (t_T dictionary) (t_T data))"
  let ?G = "t_sub (mm (t_T dictionary) dictionary) (eye N (device dictionary))"
  let ?u = "zeros [B, N] (device dictionary)"
  let ?c = "zeros [B, 0, N] (device dictionary)"
  obtain u1 c1 where loop:
    "LCA_infer_loop self False ?b ?G (nat (LCA.n_iter self)) ?u ?c = Inr (u1, c1)"
    using LCA_infer_loop_returns [of self ?b ?G "nat (LCA.n_iter self)" ?u ?c] by auto
  from LCA_infer_loop_shape [OF loop, of B N 0]
  obtain T' where s: "shape u1 = [B, N]" "shape c1 = [B, T', N]"
    "T' \<le> nat (LCA.n_iter self)"
    "py_is (LCA.return_all_coefficients self) ''none'' \<longrightarrow> T' = 0"
    by auto
  define res where
    "res = squeeze (if py_is (LCA.return_all_coefficients self) ''membrane''
                    then concat_dim1 c1 (unsqueeze1 u1)
                    else concat_dim1 c1 (unsqueeze1 (LCA_threshold_nonlinearity self u1)))"
  have r1: "fst (LCA_infer self data dictionary None False) = Inr res"
    using assms loop by (simp add: LCA_infer_def Let_def res_def)
  have r2: "shape res = filter (\<lambda>d. d \<noteq> 1) [B, T' + 1, N]"
    using s(1,2) by (simp add: res_def)
  have r3: "1 \<le> T' + 1 \<and> T' + 1 \<le> nat (LCA.n_iter self) + 1 \<and>
            (py_is (LCA.return_all_coefficients self) ''none'' \<longrightarrow> T' + 1 = 1)"
    using s(3,4) by simp
  from r1 r2 r3 show ?thesis by blast
qed

lemma Vanilla_infer_shape:
  assumes "shape data = [B, F]" and "shape dictionary = [F, N]"
    and "device data = device dictionary"
  shows "\<exists>t T. fst (Vanilla_infer self data dictionary None False g) = Inr t \<and>
           shape t = filter (\<lambda>d. d \<noteq> 1) [B, T, N] \<and> 1 \<le> T \<and>
           T \<le> nat (Vanilla.n_iter self) + 1 \<and>
           (\<not> Vanilla.return_all_coefficients self \<longrightarrow> T = 1)"
proof -
  let ?a = "t_sub_scalar (to_device (fst (rand g [B, N])) (device dictionary)) (Fin (1 / 2))"
  let ?r = "t_sub data (t_T (mm dictionary (t_T ?a)))"
  let ?c = "zeros [B, 0, N] (device dictionary)"
  have sa: "shape ?a = [B, N]" by (simp add: rand_def)
  obtain a1 c1 where loop:
    "Vanilla_infer_loop self False data dictionary (nat (Vanilla.n_iter self)) ?a ?r ?c = Inr (a1, c1)"
    using Vanilla_infer_loop_returns [of self data dictionary "nat (Vanilla.n_iter self)" ?a ?r ?c]
    by auto
  from Vanilla_infer_loop_shape [OF loop sa, of 0]
  obtain T' where s: "shape a1 = [B, N]" "shape c1 = [B, T', N]"
    "T' \<le> nat (Vanilla.n_iter self)"
    "\<not> Vanilla.return_all_coefficients self \<longrightarrow> T' = 0"
    by auto
  define res where "res = squeeze (concat_dim1 c1 (unsqueeze1 a1))"
  have r1: "fst (Vanilla_infer self data dictionary None False g) = Inr res"
    using assms loop sa by (simp add: Vanilla_infer_def Let_def split_beta res_def)
  have r2: "shape res = filter (\<lambda>d. d \<noteq> 1) [B, T' + 1, N]"
    using s(1,2) by (simp add: res_def)
  have r3: "1 \<le> T' + 1 \<and> T' + 1 \<le> nat (Vanilla.n_iter self) + 1 \<and>
            (\<not> Vanilla.return_all_coefficients self \<longrightarrow> T' + 1 = 1)"
    using s(3,4) by simp
  from r1 r2 r3 show ?thesis by blast
qed

lemma ISTA_infer_shape:
  assumes "shape data = [B, F]" and "shape dictionary = [F, N]"
    and "device data = device dictionary"
    and "elems (eigvalsh (mm (t_T dictionary) dictionary)) \<noteq> []"
  shows "\<exists>t T. fst (ISTA_infer eigvalsh self data dictionary None False) = Inr t \<and>
           shape t = filter (\<lambda>d. d \<noteq> 1) [B, T, N] \<and> 1 \<le> T \<and>
           T \<le> nat (ISTA.n_iter self) + 1 \<and>
           (\<not> ISTA.return_all_coefficients self \<longrightarrow> T = 1)"
proof -
  obtain l where ev: "ISTA_lipschitz_constant eigvalsh dictionary = Inr l"
    using assms(4)
    by (cases "elems (eigvalsh (mm (t_T dictionary) dictionary))")
      (auto simp: ISTA_lipschitz_constant_def)
  let ?step = "ISTA_stepsize l"
  let ?th = "fmul ?step (ISTA.sparsity_penalty self)"
  let ?self1 = "self\<lparr>ISTA.threshold := Some ?th\<rparr>"
  let ?u = "zeros [B, N] (device dictionary)"
  let ?c0 = "t_mul (t_sign ?u) (t_clamp_min (t_sub_scalar (t_abs ?u) ?th) (Fin 0))"
  let ?self2 = "?self1\<lparr>ISTA.coefficients := Some ?c0\<rparr>"
  let ?st = "\<lparr>st_self = ?self2, st_coeff_0 = None, st_u = ?u,
                 st_u_is_coeff_0 = False, st_residual = t_sub (t_T (mm dictionary (t_T ?c0))) data,
                 st_coefficients = zeros [B, 0, N] (device dictionary)\<rparr>"
  have inv: "ista_inv B N 0 ?st" by (simp add: ista_inv_def)
  obtain err st' where loop:
    "ISTA_infer_loop False data dictionary ?step (nat (ISTA.n_iter self)) ?st = (err, st')"
    by (cases "ISTA_infer_loop False data dictionary ?step (nat (ISTA.n_iter self)) ?st") auto
  from ISTA_infer_loop_shape [OF loop inv]
  obtain T' c where s: "err = None" "shape (st_coefficients st') = [B, T', N]"
    "ISTA.coefficients (st_self st') = Some c" "shape c = [B, N]"
    "T' \<le> nat (ISTA.n_iter self)"
    "\<not> ISTA.return_all_coefficients self \<longrightarrow> T' = 0"
    by (auto simp: ista_inv_def)
  define res where "res = squeeze (concat_dim1 (st_coefficients st') (unsqueeze1 c))"
  have r1: "fst (ISTA_infer eigvalsh self data dictionary None False) = Inr res"
    using assms(1-3) ev loop s(1,3)
    by (simp add: ISTA_infer_def Let_def shape_at_def dim_def ISTA_threshold_nonlinearity_Some
        res_def)
  have r2: "shape res = filter (\<lambda>d. d \<noteq> 1) [B, T' + 1, N]"
    using s(2,4) by (simp add: res_def)
  have r3: "1 \<le> T' + 1 \<and> T' + 1 \<le> nat (ISTA.n_iter self) + 1 \<and>
            (\<not> ISTA.return_all_coefficients self \<longrightarrow> T' + 1 = 1)"
    using s(5,6) by simp
  from r1 r2 r3 show ?thesis by blast
qed

text \<open>
  Claim C1, what the code does on a single sample: with trajectory logging off, a batch
  of one sample and \<open>N \<noteq> 1\<close> atoms, \<^verbatim>\<open>LCA.infer\<close>, \<^verbatim>\<open>Vanilla.infer\<close> and
  \<^verbatim>\<open>ISTA.infer\<close> return a tensor of shape \<open>(N)\<close>, not \<open>(1, N)\<close>: the final
  \<^verbatim>\<open>squeeze\<close> removes the batch dimension together with the trajectory dimension.
\<close>

theorem infer_single_sample_shape:
  assumes "shape data = [1, F]" and "shape dictionary = [F, N]" and "N \<noteq> 1"
    and "device data = device dictionary"
    and "elems (eigvalsh (mm (t_T dictionary) dictionary)) \<noteq> []"
    and "py_is (LCA.return_all_coefficients lca) ''none''"
    and "\<not> Vanilla.return_all_coefficients vanilla"
    and "\<not> ISTA.return_all_coefficients ista"
  shows "(\<exists>t. fst (LCA_infer lca data dictionary None False) = Inr t \<and> shape t = [N]) \<and>
         (\<exists>t. fst (Vanilla_infer vanilla data dictionary None False g) = Inr t \<and> shape t = [N]) \<and>
         (\<exists>t. fst (ISTA_infer eigvalsh ista data dictionary None False) = Inr t \<and> shape t = [N])"
proof -
  have "\<exists>t. fst (LCA_infer lca data dictionary None False) = Inr t \<and> shape t = [N]"
    using LCA_infer_shape [OF assms(1,2,4), of lca] assms(3,6) by auto
  moreover have "\<exists>t. fst (Vanilla_infer vanilla data dictionary None False g) = Inr t \<and> shape t = [N]"
    using Vanilla_infer_shape [OF assms(1,2,4), of vanilla g] assms(3,7) by auto
  moreover have "\<exists>t. fst (ISTA_infer eigvalsh ista data dictionary None False) = Inr t \<and> shape t = [N]"
    using ISTA_infer_shape [of data 1 F dictionary N eigvalsh ista] assms(1-5,8) by auto
  ultimately show ?thesis by blast
qed

text \<open>
  The theorem at the default instances, the sample \<open>(1, 0)\<close> and the identity
  dictionary: the three results have shape \<open>(2)\<close>.
\<close>

theorem infer_single_sample_shape_witness:
  "(\<exists>t. fst (LCA_infer default_LCA single_sample identity_dictionary None False) = Inr t \<and>
        shape t = [2]) \<and>
   (\<exists>t. fst (Vanilla_infer default_Vanilla single_sample identity_dictionary None False (\<lambda>i. 0))
          = Inr t \<and> shape t = [2]) \<and>
   (\<exists>t. fst (ISTA_infer identity_eigvalsh default_ISTA single_sample identity_dictionary None False)
          = Inr t \<and> shape t = [2])"
  using infer_single_sample_shape [of single_sample 2 identity_dictionary 2 identity_eigvalsh
      default_LCA default_Vanilla default_ISTA "\<lambda>i. 0"]
  by (simp add: single_sample_def identity_dictionary_def identity_eigvalsh_def default_LCA_def
      default_Vanilla_def default_ISTA_def Vanilla_init_def ISTA_init_def py_is_def)

subsection \<open>The instance of ISTA during and after infer\<close>

lemma ISTA_infer_loop_self:
  "ISTA_infer_loop chk data dictionary stepsize k st = (err, st') \<Longrightarrow>
   \<exists>c. st_self st' = (st_self st)\<lparr>ISTA.coefficients := c\<rparr>"
proof (induction k arbitrary: st)
  case 0
  then show ?case by (auto intro: exI [of _ "ISTA.coefficients (st_self st)"])
next
  case (Suc k)
  show ?case
  proof (cases "ISTA.threshold (st_self st)")
    case None
    with Suc.prems have "st_self st' = st_self st"
      by (auto simp: ISTA_threshold_nonlinearity_def Let_def split: if_splits)
    then show ?thesis by (auto intro: exI [of _ "ISTA.coefficients (st_self st)"])
  next
    case (Some th)
    let ?thr = "\<lambda>u. t_mul (t_sign u) (t_clamp_min (t_sub_scalar (t_abs u) th) (Fin 0))"
    let ?c1 = "(if ISTA.return_all_coefficients (st_self st)
                then concat_dim1 (st_coefficients st) (unsqueeze1 (?thr (st_u st)))
                else st_coefficients st)"
    let ?u1 = "t_sub (st_u st) (smul stepsize (mm (st_residual st) dictionary))"
    let ?c = "?thr ?u1"
    let ?st2 = "st\<lparr>st_coefficients := ?c1, st_u := ?u1,
                     st_coeff_0 := (if st_u_is_coeff_0 st then Some ?u1 else st_coeff_0 st),
                     st_self := (st_self st)\<lparr>ISTA.coefficients := Some ?c\<rparr>\<rparr>"
    let ?st3 = "?st2\<lparr>st_residual := t_sub (t_T (mm dictionary (t_T ?c))) data,
                            st_u := ?c, st_u_is_coeff_0 := False\<rparr>"
    from Suc.prems Some
    consider "st' = ?st2" | "st' = ?st3"
      | "ISTA_infer_loop chk data dictionary stepsize k ?st3 = (err, st')"
      by (auto simp add: Let_def ISTA_threshold_nonlinearity_Some split: if_splits sum.splits)
    then show ?thesis
    proof cases
      case 1
      then show ?thesis by auto
    next
      case 2
      then show ?thesis by auto
    next
      case 3
      from Suc.IH [OF 3] show ?thesis by auto
    qed
  qed
qed

lemma ISTA_infer_loop_self':
  "ISTA_infer_loop chk data dictionary stepsize k st = (err, st') \<Longrightarrow>
   st_self st' = (st_self st)\<lparr>ISTA.coefficients := ISTA.coefficients (st_self st')\<rparr>"
  using ISTA_infer_loop_self [of chk data dictionary stepsize k st err st'] by auto

lemma ISTA_infer_self:
  "fst (snd (ISTA_infer eigvalsh self data dictionary coeff_0 chk)) =
     self\<lparr>ISTA.coefficients := ISTA.coefficients (fst (snd (ISTA_infer eigvalsh self data dictionary coeff_0 chk))),
          ISTA.threshold := ISTA.threshold (fst (snd (ISTA_infer eigvalsh self data dictionary coeff_0 chk)))\<rparr>"
  by (auto simp: ISTA_infer_def Let_def split: sum.splits option.splits prod.splits
      dest!: ISTA_infer_loop_self')


lemma ISTA_infer_loop_threshold:
  "ISTA_infer_loop chk data dictionary stepsize k st = (err, st') \<Longrightarrow>
   ISTA.threshold (st_self st') = ISTA.threshold (st_self st)"
  using ISTA_infer_loop_self [of chk data dictionary stepsize k st err st'] by auto

lemma ISTA_infer_threshold:
  assumes "shape data \<noteq> []" and "length (shape dictionary) = 2"
    and "ISTA_lipschitz_constant eigvalsh dictionary = Inr l"
  shows "ISTA.threshold (fst (snd (ISTA_infer eigvalsh self data dictionary coeff_0 chk))) =
           Some (fmul (ISTA_stepsize l) (ISTA.sparsity_penalty self))"
  using assms
  by (auto simp: ISTA_infer_def Let_def shape_at_def ISTA_threshold_nonlinearity_def
      split: sum.splits option.splits prod.splits
      dest!: ISTA_infer_loop_threshold)



lemma identity_lipschitz:
  "ISTA_lipschitz_constant identity_eigvalsh identity_dictionary = Inr (Fin 1)"
  by (simp add: ISTA_lipschitz_constant_def identity_eigvalsh_def)



subsection \<open>Instance state, repeated calls and the caller's warm start\<close>

lemma ISTA_infer_ignores_mutable_fields:
  "fst (ISTA_infer eigvalsh (self\<lparr>ISTA.coefficients := c, ISTA.threshold := th\<rparr>) data dictionary
          coeff_0 chk) =
   fst (ISTA_infer eigvalsh self data dictionary coeff_0 chk)"
  by (simp add: ISTA_infer_def Let_def ISTA_threshold_nonlinearity_def
      split: sum.splits option.splits prod.splits)

lemma LCA_infer_self: "fst (snd (LCA_infer self data dictionary coeff_0 chk)) = self"
  by (simp add: LCA_infer_def Let_def split: sum.splits prod.splits)

lemma Vanilla_infer_self: "fst (snd (Vanilla_infer self data dictionary coeff_0 chk g)) = self"
  by (simp add: Vanilla_infer_def Let_def split: sum.splits prod.splits option.splits)

lemma LSM_infer_self: "snd (LSM_infer adam bw self data dictionary) = self"
  by (simp add: LSM_infer_def Let_def split: sum.splits prod.splits)

lemma PyTorchOptimizer_infer_self:
  "fst (snd (PyTorchOptimizer_infer bw self data dictionary coeff_0)) = self"
  by (simp add: PyTorchOptimizer_infer_def Let_def split: sum.splits prod.splits option.splits)

lemma IHT_infer_self: "snd (IHT_infer self data dictionary) = self"
  by (simp add: IHT_infer_def Let_def split: sum.splits prod.splits)

lemma MP_infer_self: "snd (MP_infer self data dictionary) = self"
  by (simp add: MP_infer_def Let_def split: sum.splits prod.splits)

lemma OMP_infer_self: "snd (OMP_infer pinv self data dictionary) = self"
  by (simp add: OMP_infer_def Let_def split: sum.splits prod.splits)

lemma ISTA_infer_loop_Suc:
  assumes "ISTA.threshold (st_self st) = Some th"
  shows "ISTA_infer_loop chk data dictionary stepsize (Suc k) st =
     (let c1 = (if ISTA.return_all_coefficients (st_self st)
                then concat_dim1 (st_coefficients st)
                       (unsqueeze1 (t_mul (t_sign (st_u st))
                          (t_clamp_min (t_sub_scalar (t_abs (st_u st)) th) (Fin 0))))
                else st_coefficients st);
          u1 = t_sub (st_u st) (smul stepsize (mm (st_residual st) dictionary));
          c = t_mul (t_sign u1) (t_clamp_min (t_sub_scalar (t_abs u1) th) (Fin 0));
          st2 = st\<lparr>st_coefficients := c1, st_u := u1,
                   st_coeff_0 := (if st_u_is_coeff_0 st then Some u1 else st_coeff_0 st),
                   st_self := (st_self st)\<lparr>ISTA.coefficients := Some c\<rparr>\<rparr>;
          st3 = st2\<lparr>st_residual := t_sub (t_T (mm dictionary (t_T c))) data,
                     st_u := c, st_u_is_coeff_0 := False\<rparr>
      in if ISTA.stop_early (st_self st) \<and>
            flt (t_mean (t_div_scalar (t_abs (t_sub (st_u st) u1)) stepsize))
                (ISTA.epsilon (st_self st))
         then (None, st2)
         else if chk \<and> NaN \<in> set (elems c)
         then (Some (ValueError ''InferenceMethod error: nan in coefficients.''), st3)
         else ISTA_infer_loop chk data dictionary stepsize k st3)"
  using assms
  by (auto simp add: Let_def ISTA_threshold_nonlinearity_Some checknan_def isnan_def list_ex_iff)

lemma ISTA_infer_loop_Suc_cases:
  assumes "ISTA.threshold (st_self st) = Some th"
    and "ISTA_infer_loop chk data dictionary stepsize (Suc k) st = (err, st')"
  obtains st3 where
    "st_coeff_0 st3 = (if st_u_is_coeff_0 st
                       then Some (t_sub (st_u st) (smul stepsize (mm (st_residual st) dictionary)))
                       else st_coeff_0 st)"
    and "\<not> st_u_is_coeff_0 st3"
    and "st_coeff_0 st' = st_coeff_0 st3 \<or>
         ISTA_infer_loop chk data dictionary stepsize k st3 = (err, st')"
proof -
  let ?c1 = "(if ISTA.return_all_coefficients (st_self st)
              then concat_dim1 (st_coefficients st)
                     (unsqueeze1 (t_mul (t_sign (st_u st))
                        (t_clamp_min (t_sub_scalar (t_abs (st_u st)) th) (Fin 0))))
              else st_coefficients st)"
  let ?u1 = "t_sub (st_u st) (smul stepsize (mm (st_residual st) dictionary))"
  let ?c = "t_mul (t_sign ?u1) (t_clamp_min (t_sub_scalar (t_abs ?u1) th) (Fin 0))"
  let ?st3 = "st\<lparr>st_coefficients := ?c1, st_u := ?u1,
                 st_coeff_0 := (if st_u_is_coeff_0 st then Some ?u1 else st_coeff_0 st),
                 st_self := (st_self st)\<lparr>ISTA.coefficients := Some ?c\<rparr>,
                 st_residual := t_sub (t_T (mm dictionary (t_T ?c))) data,
                 st_u := ?c, st_u_is_coeff_0 := False\<rparr>"
  have "st_coeff_0 st' = st_coeff_0 ?st3 \<or>
        ISTA_infer_loop chk data dictionary stepsize k ?st3 = (err, st')"
    using assms(2) unfolding ISTA_infer_loop_Suc [OF assms(1)] Let_def
    by (auto split: if_splits)
  moreover have "st_coeff_0 ?st3 = (if st_u_is_coeff_0 st then Some ?u1 else st_coeff_0 st)"
    by simp
  moreover have "\<not> st_u_is_coeff_0 ?st3" by simp
  ultimately show ?thesis using that by blast
qed

lemma ISTA_infer_loop_coeff_0_unaliased:
  "\<not> st_u_is_coeff_0 st \<Longrightarrow> ISTA_infer_loop chk data dictionary stepsize k st = (err, st') \<Longrightarrow>
   st_coeff_0 st' = st_coeff_0 st"
proof (induction k arbitrary: st)
  case 0
  then show ?case by simp
next
  case (Suc k)
  show ?case
  proof (cases "ISTA.threshold (st_self st)")
    case None
    with Suc.prems show ?thesis
      by (auto simp: ISTA_threshold_nonlinearity_def Let_def split: if_splits)
  next
    case (Some th)
    from ISTA_infer_loop_Suc_cases [OF Some Suc.prems(2)] obtain st3 where
      a: "st_coeff_0 st3 = (if st_u_is_coeff_0 st
                       then Some (t_sub (st_u st) (smul stepsize (mm (st_residual st) dictionary)))
                       else st_coeff_0 st)"
      and b: "\<not> st_u_is_coeff_0 st3"
      and c: "st_coeff_0 st' = st_coeff_0 st3 \<or>
         ISTA_infer_loop chk data dictionary stepsize k st3 = (err, st')"
      by blast
    from c Suc.IH [OF b] have "st_coeff_0 st' = st_coeff_0 st3" by blast
    with a Suc.prems(1) show ?thesis by simp
  qed
qed

lemma ISTA_infer_loop_coeff_0_aliased:
  assumes "st_u_is_coeff_0 st" and "ISTA.threshold (st_self st) = Some th"
    and "ISTA_infer_loop chk data dictionary stepsize (Suc k) st = (err, st')"
  shows "st_coeff_0 st' = Some (t_sub (st_u st) (smul stepsize (mm (st_residual st) dictionary)))"
proof -
  from ISTA_infer_loop_Suc_cases [OF assms(2,3)] obtain st3 where
      a: "st_coeff_0 st3 = (if st_u_is_coeff_0 st
                       then Some (t_sub (st_u st) (smul stepsize (mm (st_residual st) dictionary)))
                       else st_coeff_0 st)"
      and b: "\<not> st_u_is_coeff_0 st3"
      and c: "st_coeff_0 st' = st_coeff_0 st3 \<or>
         ISTA_infer_loop chk data dictionary stepsize k st3 = (err, st')"
    by blast
  from c ISTA_infer_loop_coeff_0_unaliased [OF b] have "st_coeff_0 st' = st_coeff_0 st3" by blast
  with a assms(1) show ?thesis by simp
qed

lemma to_device_same [simp]: "device t = dev \<Longrightarrow> to_device t dev = t"
  by (auto simp: to_device_def)

lemma ISTA_infer_coeff_0_in_place:
  assumes "shape data = [B, F]" and "shape dictionary = [F, N]"
    and "device data = device dictionary" and "shape c = [B, N]"
    and "device c = device dictionary"
    and "ISTA_lipschitz_constant eigvalsh dictionary = Inr l" and "0 < ISTA.n_iter self"
  shows "snd (snd (ISTA_infer eigvalsh self data dictionary (Some c) chk)) =
     Some (t_sub c (smul (ISTA_stepsize l)
       (mm (t_sub (t_T (mm dictionary (t_T
              (t_mul (t_sign c) (t_clamp_min (t_sub_scalar (t_abs c)
                 (fmul (ISTA_stepsize l) (ISTA.sparsity_penalty self))) (Fin 0)))))) data)
           dictionary)))"
proof -
  let ?th = "fmul (ISTA_stepsize l) (ISTA.sparsity_penalty self)"
  let ?c0 = "t_mul (t_sign c) (t_clamp_min (t_sub_scalar (t_abs c) ?th) (Fin 0))"
  let ?self2 = "self\<lparr>ISTA.threshold := Some ?th, ISTA.coefficients := Some ?c0\<rparr>"
  let ?st = "\<lparr>st_self = ?self2, st_coeff_0 = Some c, st_u = c,
              st_u_is_coeff_0 = True, st_residual = t_sub (t_T (mm dictionary (t_T ?c0))) data,
              st_coefficients = zeros [B, 0, N] (device dictionary)\<rparr>"
  obtain k where k: "nat (ISTA.n_iter self) = Suc k"
    using assms(7) by (cases "nat (ISTA.n_iter self)") auto
  obtain err st' where loop:
    "ISTA_infer_loop chk data dictionary (ISTA_stepsize l) (Suc k) ?st = (err, st')"
    by (cases "ISTA_infer_loop chk data dictionary (ISTA_stepsize l) (Suc k) ?st") auto
  have "st_coeff_0 st' = Some (t_sub (st_u ?st)
          (smul (ISTA_stepsize l) (mm (st_residual ?st) dictionary)))"
    by (rule ISTA_infer_loop_coeff_0_aliased [OF _ _ loop]) simp_all
  moreover have "snd (snd (ISTA_infer eigvalsh self data dictionary (Some c) chk)) = st_coeff_0 st'"
    using assms(1-6) loop k
    by (simp add: ISTA_infer_def Let_def shape_at_def dim_def ISTA_threshold_nonlinearity_Some
        split: option.splits)
  ultimately show ?thesis by simp
qed

lemma ISTA_infer_coeff_0_copy:
  assumes "device c \<noteq> device dictionary \<or> ISTA.n_iter self \<le> 0"
  shows "snd (snd (ISTA_infer eigvalsh self data dictionary (Some c) chk)) = Some c"
proof -
  have "\<And>st k err st'. ISTA_infer_loop chk data dictionary stepsize k st = (err, st') \<Longrightarrow>
      \<not> st_u_is_coeff_0 st \<or> k = 0 \<Longrightarrow> st_coeff_0 st' = st_coeff_0 st" for stepsize
    using ISTA_infer_loop_coeff_0_unaliased by fastforce
  note loop = this
  show ?thesis
    using assms
    by (auto simp: ISTA_infer_def Let_def split: sum.splits option.splits prod.splits
        dest!: loop)
qed

lemma LCA_infer_coeff_0: "snd (snd (LCA_infer self data dictionary coeff_0 chk)) = coeff_0"
  by (simp add: LCA_infer_def Let_def split: sum.splits prod.splits)

lemma Vanilla_infer_coeff_0:
  "fst (snd (snd (Vanilla_infer self data dictionary coeff_0 chk g))) = coeff_0"
  by (simp add: Vanilla_infer_def Let_def split: sum.splits prod.splits option.splits)

lemma PyTorchOptimizer_infer_coeff_0:
  assumes "shape data = [B, F]" and "shape dictionary = [F', N]"
  shows "snd (snd (PyTorchOptimizer_infer bw self data dictionary (Some obj))) =
     Some \<lparr>payload = snd (PyTorchOptimizer_infer_loop bw self data dictionary B
                              (nat (PyTorchOptimizer.n_iter self)) (payload obj)
                              (PyTorchOptimizer.optimizer_f self (payload obj))),
           requires_grad = True\<rparr>"
  using assms
  by (simp add: PyTorchOptimizer_infer_def Let_def split: prod.splits option.splits)

lemma PyTorchOptimizer_infer_result:
  assumes "shape data = [B, F]" and "shape dictionary = [F', N]"
    and "fst (PyTorchOptimizer_infer bw self data dictionary (Some obj)) = Inr t"
  shows "t = snd (PyTorchOptimizer_infer_loop bw self data dictionary B
                              (nat (PyTorchOptimizer.n_iter self)) (payload obj)
                              (PyTorchOptimizer.optimizer_f self (payload obj)))"
  using assms
  by (simp add: PyTorchOptimizer_infer_def Let_def split: prod.splits option.splits)

lemmas tensor_eval = mm_def t_T_def of_rows_def rows_def cols_def row_def col_def dim_def
  dot_def fsum_def t_sub_def t_add_def t_mul_def t_sign_def t_abs_def t_clamp_min_def
  t_sub_scalar_def smul_def tzip_def tmap_def fsub_def clamp_min_def isnan_def
  zeros_def full_def concat_dim1_def unsqueeze1_def squeeze_def to_device_def

lemma upt_2 [simp]: "[0..<2] = [0, 1]"
  by (simp add: upt_rec)

text \<open>
  Claim C10 as stated fails where the in-place update writes the values the tensor
  already has: with the zero sample and a warm start of zeros the gradient term is
  zero, and the caller's tensor holds its original values after \<^verbatim>\<open>ISTA.infer\<close>.
\<close>

theorem ISTA_fixed_point_warm_start:
  "snd (snd (ISTA_infer identity_eigvalsh default_ISTA zero_sample identity_dictionary
               (Some zero_sample) False)) = Some zero_sample"
proof -
  have l: "ISTA_lipschitz_constant identity_eigvalsh identity_dictionary = Inr (Fin 1)"
    by (simp add: ISTA_lipschitz_constant_def identity_eigvalsh_def)
  have "snd (snd (ISTA_infer identity_eigvalsh default_ISTA zero_sample identity_dictionary
               (Some zero_sample) False)) =
     Some (t_sub zero_sample (smul (ISTA_stepsize (Fin 1))
       (mm (t_sub (t_T (mm identity_dictionary (t_T
              (t_mul (t_sign zero_sample) (t_clamp_min (t_sub_scalar (t_abs zero_sample)
                 (fmul (ISTA_stepsize (Fin 1)) (ISTA.sparsity_penalty default_ISTA))) (Fin 0))))))
              zero_sample)
           identity_dictionary)))"
    by (rule ISTA_infer_coeff_0_in_place [OF _ _ _ _ _ l, of _ 1 2 2])
      (simp_all add: zero_sample_def identity_dictionary_def default_ISTA_def ISTA_init_def)
  also have "\<dots> = Some zero_sample"
    by (simp add: zero_sample_def identity_dictionary_def default_ISTA_def ISTA_init_def
        ISTA_stepsize_def tensor_eval)
  finally show ?thesis .
qed

text \<open>
  Claim C8 as stated fails for Vanilla without a warm start: the initial coefficients are
  drawn from the global random generator, and a second call, made in the generator state
  the first call has left, returns another tensor.
\<close>

theorem Vanilla_random_start_differs:
  "fst (Vanilla_infer (default_Vanilla\<lparr>Vanilla.n_iter := 1\<rparr>) single_sample identity_dictionary
         None False two_draws) \<noteq>
   fst (Vanilla_infer (default_Vanilla\<lparr>Vanilla.n_iter := 1\<rparr>) single_sample identity_dictionary
         None False
         (snd (snd (snd (Vanilla_infer (default_Vanilla\<lparr>Vanilla.n_iter := 1\<rparr>) single_sample
                           identity_dictionary None False two_draws)))))"
  by (simp add: Vanilla_infer_def default_Vanilla_def Vanilla_init_def single_sample_def
      identity_dictionary_def shape2_def rand_def two_draws_def Let_def Vanilla_grad_def
      tensor_eval)

text \<open>
  Claim C9, as amended: \<^verbatim>\<open>infer\<close> of LCA, Vanilla, LSM, PyTorchOptimizer, IHT, MP and OMP
  returns with the instance as it was. \<^verbatim>\<open>ISTA.infer\<close> changes the instance in the two
  attributes \<^verbatim>\<open>coefficients\<close> and \<^verbatim>\<open>threshold\<close> only, and what it returns does not
  depend on the values these two attributes had before the call, so a call cannot
  influence a later one through the instance.
\<close>

theorem infer_instance_frame:
  "fst (snd (LCA_infer lca data dictionary coeff_0 chk)) = lca \<and>
   fst (snd (Vanilla_infer vanilla data dictionary coeff_0 chk g)) = vanilla \<and>
   snd (LSM_infer adam bw lsm data dictionary) = lsm \<and>
   fst (snd (PyTorchOptimizer_infer bw pto data dictionary obj)) = pto \<and>
   snd (IHT_infer iht data dictionary) = iht \<and>
   snd (MP_infer mp data dictionary) = mp \<and>
   snd (OMP_infer pinv omp data dictionary) = omp \<and>
   (\<exists>c th. fst (snd (ISTA_infer eigvalsh ista data dictionary coeff_0 chk)) =
             ista\<lparr>ISTA.coefficients := c, ISTA.threshold := th\<rparr>) \<and>
   fst (ISTA_infer eigvalsh (ista\<lparr>ISTA.coefficients := c', ISTA.threshold := th'\<rparr>) data
          dictionary coeff_0 chk) =
     fst (ISTA_infer eigvalsh ista data dictionary coeff_0 chk)"
  using ISTA_infer_self [of eigvalsh ista data dictionary coeff_0 chk]
  by (simp only: LCA_infer_self Vanilla_infer_self LSM_infer_self PyTorchOptimizer_infer_self
      IHT_infer_self MP_infer_self OMP_infer_self ISTA_infer_ignores_mutable_fields) blast

text \<open>
  The theorem at the default instances, the sample \<open>(1, 0)\<close> and the identity
  dictionary.
\<close>

theorem infer_instance_frame_witness:
  "fst (snd (LCA_infer default_LCA single_sample identity_dictionary None False)) = default_LCA \<and>
   fst (snd (Vanilla_infer default_Vanilla single_sample identity_dictionary None False
               two_draws)) = default_Vanilla \<and>
   snd (LSM_infer (\<lambda>p. gradient_descent (Fin (1 / 1000))) zero_gradient default_LSM
          single_sample identity_dictionary) = default_LSM \<and>
   fst (snd (PyTorchOptimizer_infer zero_gradient example_PyTorchOptimizer single_sample
               identity_dictionary None)) = example_PyTorchOptimizer \<and>
   snd (IHT_infer example_IHT single_sample identity_dictionary) = example_IHT \<and>
   snd (MP_infer example_MP single_sample identity_dictionary) = example_MP \<and>
   snd (OMP_infer pinv_unit_columns example_OMP single_sample identity_dictionary)
     = example_OMP \<and>
   (\<exists>c th. fst (snd (ISTA_infer identity_eigvalsh default_ISTA single_sample
                        identity_dictionary None False)) =
             default_ISTA\<lparr>ISTA.coefficients := c, ISTA.threshold := th\<rparr>) \<and>
   fst (ISTA_infer identity_eigvalsh
          (default_ISTA\<lparr>ISTA.coefficients := Some zero_sample,
                          ISTA.threshold := Some (Fin 5)\<rparr>)
          single_sample identity_dictionary None False) =
     fst (ISTA_infer identity_eigvalsh default_ISTA single_sample identity_dictionary None False)"
  by (rule infer_instance_frame)

text \<open>
  Claim C9 as stated fails for ISTA: \<^verbatim>\<open>ISTA()\<close> has no threshold before \<^verbatim>\<open>infer\<close> and
  has one after it, so the instance after the call is not the instance before it.
\<close>

theorem ISTA_infer_changes_instance:
  "ISTA.threshold default_ISTA = None \<and>
   ISTA.threshold (fst (snd (ISTA_infer identity_eigvalsh default_ISTA single_sample
                               identity_dictionary None False))) \<noteq> None \<and>
   fst (snd (ISTA_infer identity_eigvalsh default_ISTA single_sample identity_dictionary
               None False)) \<noteq> default_ISTA"
proof -
  have a: "ISTA.threshold default_ISTA = None"
    by (simp add: default_ISTA_def ISTA_init_def)
  have b: "ISTA.threshold (fst (snd (ISTA_infer identity_eigvalsh default_ISTA single_sample
                               identity_dictionary None False))) \<noteq> None"
    using ISTA_infer_threshold [OF _ _ identity_lipschitz, of single_sample default_ISTA None False]
    by (simp add: single_sample_def identity_dictionary_def)
  from a b show ?thesis by auto
qed

lemma Vanilla_infer_warm_start:
  "fst (Vanilla_infer self data dictionary (Some c) chk g') =
     fst (Vanilla_infer self data dictionary (Some c) chk g) \<and>
   snd (snd (snd (Vanilla_infer self data dictionary (Some c) chk g))) = g"
  by (simp add: Vanilla_infer_def Let_def split: sum.splits prod.splits)

text \<open>
  Claim C8, as amended: a second call of \<^verbatim>\<open>infer\<close> on the instance the first call has
  left, with the same data, dictionary and warm start (and the same backend and
  optimizer functions), returns what the first call returned; for Vanilla this holds
  with a warm start, where the result does not depend on the state of the random
  generator, which the call leaves as it was.
\<close>

theorem repeated_infer_same_result:
  "fst (LCA_infer (fst (snd (LCA_infer lca data dictionary coeff_0 chk))) data dictionary
          coeff_0 chk) =
     fst (LCA_infer lca data dictionary coeff_0 chk) \<and>
   fst (Vanilla_infer (fst (snd (Vanilla_infer vanilla data dictionary (Some c) chk g)))
          data dictionary (Some c) chk
          (snd (snd (snd (Vanilla_infer vanilla data dictionary (Some c) chk g))))) =
     fst (Vanilla_infer vanilla data dictionary (Some c) chk g) \<and>
   fst (Vanilla_infer vanilla data dictionary (Some c) chk g') =
     fst (Vanilla_infer vanilla data dictionary (Some c) chk g) \<and>
   fst (ISTA_infer eigvalsh (fst (snd (ISTA_infer eigvalsh ista data dictionary coeff_0 chk)))
          data dictionary coeff_0 chk) =
     fst (ISTA_infer eigvalsh ista data dictionary coeff_0 chk) \<and>
   fst (LSM_infer adam bw (snd (LSM_infer adam bw lsm data dictionary)) data dictionary) =
     fst (LSM_infer adam bw lsm data dictionary) \<and>
   fst (PyTorchOptimizer_infer bw
          (fst (snd (PyTorchOptimizer_infer bw pto data dictionary obj))) data dictionary obj) =
     fst (PyTorchOptimizer_infer bw pto data dictionary obj) \<and>
   fst (IHT_infer (snd (IHT_infer iht data dictionary)) data dictionary) =
     fst (IHT_infer iht data dictionary) \<and>
   fst (MP_infer (snd (MP_infer mp data dictionary)) data dictionary) =
     fst (MP_infer mp data dictionary) \<and>
   fst (OMP_infer pinv (snd (OMP_infer pinv omp data dictionary)) data dictionary) =
     fst (OMP_infer pinv omp data dictionary)"
proof -
  have ista: "fst (ISTA_infer eigvalsh
                (fst (snd (ISTA_infer eigvalsh ista data dictionary coeff_0 chk)))
                data dictionary coeff_0 chk) =
              fst (ISTA_infer eigvalsh ista data dictionary coeff_0 chk)"
    by (subst ISTA_infer_self) (rule ISTA_infer_ignores_mutable_fields)
  have vanilla: "fst (Vanilla_infer vanilla data dictionary (Some c) chk
          (snd (snd (snd (Vanilla_infer vanilla data dictionary (Some c) chk g))))) =
     fst (Vanilla_infer vanilla data dictionary (Some c) chk g)"
    using Vanilla_infer_warm_start by blast
  show ?thesis
    using ista vanilla Vanilla_infer_warm_start [of vanilla data dictionary c chk g' g]
    by (simp only: LCA_infer_self Vanilla_infer_self LSM_infer_self PyTorchOptimizer_infer_self
      IHT_infer_self MP_infer_self OMP_infer_self)
qed

text \<open>
  The theorem at the default instances, the sample \<open>(1, 0)\<close>, the identity dictionary
  and, for Vanilla, a warm start of zeros.
\<close>

theorem repeated_infer_same_result_witness:
  "fst (LCA_infer (fst (snd (LCA_infer default_LCA single_sample identity_dictionary None False)))
          single_sample identity_dictionary None False) =
     fst (LCA_infer default_LCA single_sample identity_dictionary None False) \<and>
   fst (Vanilla_infer
          (fst (snd (Vanilla_infer default_Vanilla single_sample identity_dictionary
                       (Some zero_sample) False two_draws)))
          single_sample identity_dictionary (Some zero_sample) False
          (snd (snd (snd (Vanilla_infer default_Vanilla single_sample identity_dictionary
                            (Some zero_sample) False two_draws))))) =
     fst (Vanilla_infer default_Vanilla single_sample identity_dictionary (Some zero_sample)
            False two_draws) \<and>
   fst (Vanilla_infer default_Vanilla single_sample identity_dictionary (Some zero_sample)
          False (\<lambda>i. 0)) =
     fst (Vanilla_infer default_Vanilla single_sample identity_dictionary (Some zero_sample)
            False two_draws) \<and>
   fst (ISTA_infer identity_eigvalsh
          (fst (snd (ISTA_infer identity_eigvalsh default_ISTA single_sample
                       identity_dictionary None False)))
          single_sample identity_dictionary None False) =
     fst (ISTA_infer identity_eigvalsh default_ISTA single_sample identity_dictionary None
            False) \<and>
   fst (LSM_infer (\<lambda>p. gradient_descent (Fin (1 / 1000))) zero_gradient
          (snd (LSM_infer (\<lambda>p. gradient_descent (Fin (1 / 1000))) zero_gradient default_LSM
                  single_sample identity_dictionary))
          single_sample identity_dictionary) =
     fst (LSM_infer (\<lambda>p. gradient_descent (Fin (1 / 1000))) zero_gradient default_LSM
            single_sample identity_dictionary) \<and>
   fst (PyTorchOptimizer_infer zero_gradient
          (fst (snd (PyTorchOptimizer_infer zero_gradient example_PyTorchOptimizer
                       single_sample identity_dictionary None)))
          single_sample identity_dictionary None) =
     fst (PyTorchOptimizer_infer zero_gradient example_PyTorchOptimizer single_sample
            identity_dictionary None) \<and>
   fst (IHT_infer (snd (IHT_infer example_IHT single_sample identity_dictionary))
          single_sample identity_dictionary) =
     fst (IHT_infer example_IHT single_sample identity_dictionary) \<and>
   fst (MP_infer (snd (MP_infer example_MP single_sample identity_dictionary))
          single_sample identity_dictionary) =
     fst (MP_infer example_MP single_sample identity_dictionary) \<and>
   fst (OMP_infer pinv_unit_columns
          (snd (OMP_infer pinv_unit_columns example_OMP single_sample identity_dictionary))
          single_sample identity_dictionary) =
     fst (OMP_infer pinv_unit_columns example_OMP single_sample identity_dictionary)"
  by (rule repeated_infer_same_result)

text \<open>
  Claim C10, as amended. With a warm start on the dictionary's device and at least one
  iteration, the caller's tensor holds after \<^verbatim>\<open>ISTA.infer\<close> the result of the first
  in-place subtraction, \<open>coeff_0 - stepsize * (residual @ D)\<close>, and no later iterate
  (the second iteration works on another object). After \<^verbatim>\<open>PyTorchOptimizer.infer\<close> the
  caller's tensor holds what the optimizer steps have left, which is the tensor
  returned, and its \<^verbatim>\<open>requires_grad\<close> flag is set. \<^verbatim>\<open>LCA.infer\<close> and
  \<^verbatim>\<open>Vanilla.infer\<close> leave the caller's tensor as it was.
\<close>

theorem warm_start_in_place:
  assumes "shape data = [B, F]" and "shape dictionary = [F, N]"
    and "device data = device dictionary" and "shape c = [B, N]"
    and "device c = device dictionary"
    and "ISTA_lipschitz_constant eigvalsh dictionary = Inr l" and "0 < ISTA.n_iter ista"
  shows "snd (snd (ISTA_infer eigvalsh ista data dictionary (Some c) chk)) =
           Some (t_sub c (smul (ISTA_stepsize l)
             (mm (t_sub (t_T (mm dictionary (t_T
                    (t_mul (t_sign c) (t_clamp_min (t_sub_scalar (t_abs c)
                       (fmul (ISTA_stepsize l) (ISTA.sparsity_penalty ista))) (Fin 0))))))
                    data)
                 dictionary))) \<and>
         snd (snd (PyTorchOptimizer_infer bw pto data dictionary (Some obj))) =
           Some \<lparr>payload = snd (PyTorchOptimizer_infer_loop bw pto data dictionary B
                                    (nat (PyTorchOptimizer.n_iter pto)) (payload obj)
                                    (PyTorchOptimizer.optimizer_f pto (payload obj))),
                 requires_grad = True\<rparr> \<and>
         (\<forall>t. fst (PyTorchOptimizer_infer bw pto data dictionary (Some obj)) = Inr t \<longrightarrow>
              t = snd (PyTorchOptimizer_infer_loop bw pto data dictionary B
                         (nat (PyTorchOptimizer.n_iter pto)) (payload obj)
                         (PyTorchOptimizer.optimizer_f pto (payload obj)))) \<and>
         snd (snd (LCA_infer lca data dictionary (Some c) chk)) = Some c \<and>
         fst (snd (snd (Vanilla_infer vanilla data dictionary (Some c) chk g))) = Some c"
  using ISTA_infer_coeff_0_in_place [OF assms, of chk]
    PyTorchOptimizer_infer_coeff_0 [OF assms(1,2), of bw pto obj]
    PyTorchOptimizer_infer_result [OF assms(1,2), of bw pto obj]
  by (simp only: LCA_infer_coeff_0 Vanilla_infer_coeff_0) blast

text \<open>
  The theorem at the identity dictionary, the sample \<open>(1, 0)\<close> and a warm start of
  zeros: after \<^verbatim>\<open>ISTA.infer\<close> the caller's tensor is \<open>(1, 0)\<close>.
\<close>

theorem warm_start_in_place_witness:
  "snd (snd (ISTA_infer identity_eigvalsh default_ISTA single_sample identity_dictionary
               (Some zero_sample) False)) = Some single_sample \<and>
   (\<exists>t. snd (snd (PyTorchOptimizer_infer zero_gradient example_PyTorchOptimizer single_sample
                     identity_dictionary
                     (Some \<lparr>payload = zero_sample, requires_grad = False\<rparr>))) =
           Some \<lparr>payload = t, requires_grad = True\<rparr>) \<and>
   snd (snd (LCA_infer default_LCA single_sample identity_dictionary (Some zero_sample) False))
     = Some zero_sample \<and>
   fst (snd (snd (Vanilla_infer default_Vanilla single_sample identity_dictionary
                    (Some zero_sample) False two_draws))) = Some zero_sample"
  using warm_start_in_place [of single_sample 1 2 identity_dictionary 2 zero_sample
      identity_eigvalsh "Fin 1" default_ISTA False zero_gradient example_PyTorchOptimizer
      "\<lparr>payload = zero_sample, requires_grad = False\<rparr>" default_LCA default_Vanilla two_draws]
    identity_lipschitz
  by (simp add: zero_sample_def single_sample_def identity_dictionary_def default_ISTA_def
      ISTA_init_def ISTA_stepsize_def tensor_eval)

subsection \<open>Rows of the coefficient matrix and the sparsity of IHT\<close>



lemma length_foldl_update [simp]:
  "length (foldl (\<lambda>e (j, v). e[j := v]) xs ps) = length xs"
  by (induction ps arbitrary: xs) (auto split: prod.splits)

lemma count_nonzero_replicate_zero [simp]: "count_nonzero (replicate n (Fin 0)) = 0"
  by (simp add: count_nonzero_def)






lemma shape_set_row [simp]: "shape (set_row t i r) = shape t"
  by (simp add: set_row_def)






lemma dim_slice_row [simp]: "dim (slice_row t i) (Suc 0) = dim t (Suc 0)"
  by (simp add: slice_row_def of_rows_def dim_def)

lemma device_slice_row [simp]: "device (slice_row t i) = device t"
  by (simp add: slice_row_def of_rows_def)

lemma dim_2d [simp]:
  "shape t = [a, b] \<Longrightarrow> dim t 0 = a"
  "shape t = [a, b] \<Longrightarrow> dim t (Suc 0) = b"
  by (simp_all add: dim_def)




subsection \<open>Errors and configuration\<close>





lemma simple_errors [simp]:
  "RuntimeError \<in> inference_errors" "IndexError \<in> inference_errors"
  "ZeroDivisionError \<in> inference_errors" "AttributeError ''threshold'' \<in> inference_errors"
  "AttributeError ''clone'' \<in> inference_errors"
  by (simp_all add: inference_errors_def)




























subsection \<open>The residual of OMP\<close>

text \<open>
  \<open>pinv_unit_columns\<close> is the pseudo-inverse on the two matrices that arise below.
\<close>

lemma pinv_unit_columns_penrose:
  "penrose (take_cols identity_dictionary [0]) (pinv_unit_columns (take_cols identity_dictionary [0])) \<and>
   penrose (take_cols identity_dictionary [0, 0])
     (pinv_unit_columns (take_cols identity_dictionary [0, 0]))"
  by code_simp

lemma col_norms_identity:
  "col_norms identity_dictionary = \<lparr>shape = [1, 2], elems = [Fin 1, Fin 1], device = CPU\<rparr>"
  by (simp add: col_norms_def identity_dictionary_def tensor_eval)

lemma OMP_two_steps:
  "OMP_infer_iterate pinv_unit_columns identity_dictionary
     \<lparr>shape = [1, 2], elems = [Fin 1, Fin 1], device = CPU\<rparr>
     single_sample 2 single_sample [] (zeros [1, 2] CPU) [single_sample] =
   Inr (\<lparr>shape = [1, 2], elems = [Fin (1 / 2), Fin 0], device = CPU\<rparr>,
        [single_sample, zero_sample,
         \<lparr>shape = [1, 2], elems = [Fin (1 / 2), Fin 0], device = CPU\<rparr>])"
  by code_simp

text \<open>
  Claim C6, what the code does for the identity dictionary, the sample \<open>(1, 0)\<close> and
  sparsity 1 (so \<open>K = 2\<close>): the first step selects atom 0 and leaves the residual
  \<open>(0, 0)\<close>; the second step selects atom 0 again, the refit over the columns
  \<open>[0, 0]\<close> gives \<open>(0.5, 0.5)\<close>, the indexed assignment writes 0.5 to coefficient 0,
  and the residual becomes \<open>(0.5, 0)\<close>. The residual norms are 1, 0 and 0.5: the norm
  grows in the second step, and \<^verbatim>\<open>infer\<close> returns \<open>(0.5, 0)\<close>. The function
  that stands for \<^verbatim>\<open>torch.linalg.pinv\<close> satisfies the Penrose conditions on both
  matrices.
\<close>

theorem OMP_residual_norm_increases:
  "OMP_infer_iterate pinv_unit_columns identity_dictionary (col_norms identity_dictionary)
     single_sample 2 single_sample [] (zeros [1, 2] CPU) [single_sample] =
   Inr (\<lparr>shape = [1, 2], elems = [Fin (1 / 2), Fin 0], device = CPU\<rparr>,
        [single_sample, zero_sample,
         \<lparr>shape = [1, 2], elems = [Fin (1 / 2), Fin 0], device = CPU\<rparr>]) \<and>
   t_norm single_sample = Fin 1 \<and> t_norm zero_sample = Fin 0 \<and>
   t_norm \<lparr>shape = [1, 2], elems = [Fin (1 / 2), Fin 0], device = CPU\<rparr> = Fin (1 / 2) \<and>
   flt (t_norm zero_sample)
       (t_norm \<lparr>shape = [1, 2], elems = [Fin (1 / 2), Fin 0], device = CPU\<rparr>) \<and>
   fst (OMP_infer pinv_unit_columns example_OMP single_sample identity_dictionary) =
     Inr \<lparr>shape = [1, 2], elems = [Fin (1 / 2), Fin 0], device = CPU\<rparr> \<and>
   penrose (take_cols identity_dictionary [0])
     (pinv_unit_columns (take_cols identity_dictionary [0])) \<and>
   penrose (take_cols identity_dictionary [0, 0])
     (pinv_unit_columns (take_cols identity_dictionary [0, 0]))"
proof -
  have steps: "OMP_infer_iterate pinv_unit_columns identity_dictionary
     (col_norms identity_dictionary)
     single_sample 2 single_sample [] (zeros [1, 2] CPU) [single_sample] =
   Inr (\<lparr>shape = [1, 2], elems = [Fin (1 / 2), Fin 0], device = CPU\<rparr>,
        [single_sample, zero_sample,
         \<lparr>shape = [1, 2], elems = [Fin (1 / 2), Fin 0], device = CPU\<rparr>])"
    unfolding col_norms_identity by (rule OMP_two_steps)
  have infer: "fst (OMP_infer pinv_unit_columns example_OMP single_sample identity_dictionary) =
     Inr \<lparr>shape = [1, 2], elems = [Fin (1 / 2), Fin 0], device = CPU\<rparr>"
    unfolding OMP_infer_def col_norms_identity by code_simp
  have norms: "t_norm single_sample = Fin 1 \<and> t_norm zero_sample = Fin 0 \<and>
     t_norm \<lparr>shape = [1, 2], elems = [Fin (1 / 2), Fin 0], device = CPU\<rparr> = Fin (1 / 2)"
    by (simp add: t_norm_def single_sample_def zero_sample_def fsum_def real_sqrt_divide)
  from norms have grows: "flt (t_norm zero_sample)
       (t_norm \<lparr>shape = [1, 2], elems = [Fin (1 / 2), Fin 0], device = CPU\<rparr>)"
    by simp
  from steps infer norms grows pinv_unit_columns_penrose show ?thesis by blast
qed

end
